theory Spec2Isabelle
  imports Complex_Main "HOL-Library.Multiset"
begin

section \<open>Strings and path names\<close>

text \<open>
  Python strings are modelled as \<open>string\<close>. \<open>str.upper\<close> is modelled on the ASCII
  letters, which is what exchange symbols consist of; every other character is left as it is.
\<close>

definition upper_char :: "char \<Rightarrow> char" where
  "upper_char c =
     (let n = (of_char c :: nat) in if 97 \<le> n \<and> n \<le> 122 then char_of (n - 32) else c)"

definition upper :: "string \<Rightarrow> string" where
  "upper s = map upper_char s"

definition is_ascii_lower :: "char \<Rightarrow> bool" where
  "is_ascii_lower c = (97 \<le> (of_char c :: nat) \<and> (of_char c :: nat) \<le> 122)"

text \<open>
  \<open>get_path\<close> of \<open>researchtools/__init__.py\<close>. The optional \<open>interval\<close> is a
  \<open>string option\<close>, \<open>None\<close> being Python's \<open>None\<close>.
\<close>

definition get_path :: "string \<Rightarrow> string \<Rightarrow> string \<Rightarrow> string \<Rightarrow> string option \<Rightarrow> string" where
  "get_path trading_type market_data_type time_period symbol interval =
     (let trading_type_path =
            (if trading_type \<noteq> ''spot'' then ''data/futures/'' @ trading_type else ''data/spot'')
      in case interval of
           Some iv \<Rightarrow>
             trading_type_path @ ''/'' @ time_period @ ''/'' @ market_data_type @ ''/''
               @ upper symbol @ ''/'' @ iv @ ''/''
         | None \<Rightarrow>
             trading_type_path @ ''/'' @ time_period @ ''/'' @ market_data_type @ ''/''
               @ upper symbol @ ''/'')"


section \<open>The world: local files, the remote archive, the process environment\<close>

text \<open>
  Exceptions of the Python code are values of \<open>error\<close>; a function that can raise
  returns \<open>error + 'a\<close> with \<open>Inl\<close> the exception. A function with effects takes the
  world and returns the result paired with the new world.
\<close>

datatype error =
    HTTPError | URLError | UnboundLocalError | ZeroDivisionError | FileExistsError
  | IsADirectoryError | FileNotFoundError | EmptyDataError | ValueError | KeyError | IndexError
  | OutOfBoundsDatetime

text \<open>
  What \<open>urllib.request.urlopen\<close> does for a URL: it raises \<open>HTTPError\<close> (the status is
  an error, such as 404), it raises another \<open>URLError\<close> (no connection), or it gives a
  response with its \<open>content-length\<close> header (\<open>None\<close>: the header is absent or empty)
  and its body.
\<close>

datatype reply = Http_error | Url_error | Reply "nat option" string

text \<open>
  The rows of the two kinds of CSV archive, with the column names the code gives them.
  Prices and quantities are real numbers here (the code has floating-point numbers), times
  are integers (milliseconds).
\<close>

record trade =
  tradeID :: int
  price :: real
  qty :: real
  quoteQty :: real
  time :: int
  isBuyerMaker :: bool
  isBestMatch :: bool

record kline_row =
  open_time :: int
  open_price :: real
  high :: real
  low :: real
  close :: real
  volume :: real
  close_time :: int
  quote_asset_volume :: real
  number_of_trades :: int
  taker_buy_asset_volume :: real
  taker_buy_quote_asset_volume :: real
  ignore :: real

type_synonym date = "nat \<times> nat \<times> nat"

text \<open>
  The file system is a map from the path of a regular file to its contents and a set of
  directories; a path names an entry by its text as written. \<open>opened\<close> lists the URLs
  given to \<open>urlopen\<close> and \<open>calls\<close> the invocations of \<open>download_file\<close> with their
  \<open>base_path\<close> and \<open>file_name\<close>, both in order: they record what was attempted.
  \<open>trade_csv\<close> and \<open>kline_csv\<close> are what \<open>pandas.read_csv\<close> makes of the archive at
  a path with the trade columns and with the kline columns: the rows, or the exception it
  raises. Console output is not part of the world.
\<close>

record world =
  files :: "string \<rightharpoonup> string"
  dirs :: "string set"
  remote :: "string \<Rightarrow> reply"
  opened :: "string list"
  calls :: "(string \<times> string) list"
  trade_csv :: "string \<Rightarrow> error + trade list"
  kline_csv :: "string \<Rightarrow> error + kline_row list"
  STORE_DIRECTORY :: "string option"
  module_dir :: string
  cwd :: string
  END_DATE :: date

definition BASE_URL :: string where
  "BASE_URL = ''https://data.binance.vision/''"

text \<open>Truth value of an optional string: \<open>None\<close> and the empty string are false.\<close>

definition truthy :: "string option \<Rightarrow> bool" where
  "truthy s = (case s of None \<Rightarrow> False | Some t \<Rightarrow> t \<noteq> [])"

text \<open>\<open>os.path.join\<close> of two components, on POSIX.\<close>

definition path_join :: "string \<Rightarrow> string \<Rightarrow> string" where
  "path_join a b =
     (if b \<noteq> [] \<and> hd b = CHR ''/'' then b
      else if a = [] \<or> last a = CHR ''/'' then a @ b
      else a @ ''/'' @ b)"

definition get_destination_dir :: "world \<Rightarrow> string \<Rightarrow> string option \<Rightarrow> string" where
  "get_destination_dir w file_url folder =
     (let store_directory = STORE_DIRECTORY w;
          store_directory = (if truthy folder then folder else store_directory);
          store_directory = (if \<not> truthy store_directory then Some (module_dir w) else store_directory)
      in path_join (the store_directory) file_url)"

definition get_download_url :: "string \<Rightarrow> string" where
  "get_download_url file_url = BASE_URL @ file_url"

definition exists :: "world \<Rightarrow> string \<Rightarrow> bool" where
  "exists w p = (p \<in> dom (files w) \<or> p \<in> dirs w)"

text \<open>The proper ancestors of a path: its prefixes that end before a separator.\<close>

fun parents :: "string \<Rightarrow> string \<Rightarrow> string list" where
  "parents acc [] = []"
| "parents acc (c # cs) =
     (if c = CHR ''/'' \<and> acc \<noteq> [] then [acc] else []) @ parents (acc @ [c]) cs"

text \<open>
  \<open>Path(p).mkdir(parents=True, exist_ok=True)\<close>: it raises when the path is a regular
  file, and otherwise the path and its ancestors are directories afterwards.
\<close>

definition mkdir_parents :: "string \<Rightarrow> world \<Rightarrow> error + world" where
  "mkdir_parents p w =
     (if p \<in> dom (files w) then Inl FileExistsError
      else Inr (w\<lparr>dirs := dirs w \<union> {p} \<union> set (parents [] p)\<rparr>))"

text \<open>\<open>open(p, 'wb')\<close>: the file exists and is empty afterwards, unless the path is a directory.\<close>

definition open_wb :: "string \<Rightarrow> world \<Rightarrow> error + world" where
  "open_wb p w =
     (if p \<in> dirs w then Inl IsADirectoryError
      else Inr (w\<lparr>files := (files w)(p \<mapsto> [])\<rparr>))"

text \<open>
  The copy loop of \<open>download_file\<close>: \<open>rest\<close> is what the response has not delivered yet,
  \<open>written\<close> what the output file holds. Each round reads up to \<open>blocksize\<close> bytes, stops
  on an empty read, writes the block and computes the progress \<open>50 * dl_progress / length\<close>,
  which raises when the length \<open>len\<close> is zero.
\<close>

function copy_blocks :: "nat \<Rightarrow> nat \<Rightarrow> string \<Rightarrow> string \<Rightarrow> (error + unit) \<times> string" where
  "copy_blocks blocksize len rest written =
     (let buf = take blocksize rest in
      if buf = [] then (Inr (), written)
      else let written = written @ buf in
        if len = 0 then (Inl ZeroDivisionError, written)
        else copy_blocks blocksize len (drop blocksize rest) written)"
  by pat_completeness auto
termination
  by (relation "measure (\<lambda>(blocksize, len, rest, written). size rest)") auto

declare copy_blocks.simps [simp del]

definition save_path_of :: "world \<Rightarrow> string \<Rightarrow> string \<Rightarrow> string option \<Rightarrow> string" where
  "save_path_of w base_path file_name folder =
     (let base_path = (if truthy folder then path_join (the folder) base_path else base_path)
      in get_destination_dir w (path_join base_path file_name) folder)"

text \<open>
  The \<open>try\<close> block of \<open>download_file\<close>: only \<open>HTTPError\<close> is caught.
\<close>

definition try_download :: "string \<Rightarrow> string \<Rightarrow> world \<Rightarrow> (error + unit) \<times> world" where
  "try_download save_path download_path w1 =
     (let download_url = get_download_url download_path;
          w2 = w1\<lparr>opened := opened w1 @ [download_url]\<rparr>
      in case remote w2 download_url of
           Http_error \<Rightarrow> (Inr (), w2)
         | Url_error \<Rightarrow> (Inl URLError, w2)
         | Reply len body \<Rightarrow>
             (case open_wb save_path w2 of
                Inl e \<Rightarrow> (Inl e, w2)
              | Inr w3 \<Rightarrow>
                  (case len of
                     None \<Rightarrow> (Inl UnboundLocalError, w3)
                   | Some len \<Rightarrow>
                       let blocksize = max 4096 (len div 100);
                           (r, written) = copy_blocks blocksize len body []
                       in (r, w3\<lparr>files := (files w3)(save_path \<mapsto> written)\<rparr>))))"

definition download_file ::
  "string \<Rightarrow> string \<Rightarrow> string option \<Rightarrow> string option \<Rightarrow> world \<Rightarrow> (error + unit) \<times> world" where
  "download_file base_path file_name date_range folder w0 =
     (let w = w0\<lparr>calls := calls w0 @ [(base_path, file_name)]\<rparr>;
          download_path = base_path @ file_name;
          base_path = (if truthy folder then path_join (the folder) base_path else base_path);
          save_path = get_destination_dir w (path_join base_path file_name) folder
      in if exists w save_path then (Inr (), w)
         else
           case (if \<not> exists w base_path
                 then mkdir_parents (get_destination_dir w base_path None) w else Inr w) of
             Inl e \<Rightarrow> (Inl e, w)
           | Inr w1 \<Rightarrow> try_download save_path download_path w1)"


text \<open>
  The local base directory of a download and the loop combinator: \<open>for_each body xs\<close> is
  \<open>for x in xs: body(x)\<close> on the state the body works on (the world, or the local
  variables of the function), where an exception ends the loop and is passed on.
\<close>

definition local_base :: "string option \<Rightarrow> string \<Rightarrow> string" where
  "local_base folder base_path =
     (if truthy folder then path_join (the folder) base_path else base_path)"

fun for_each ::
  "('a \<Rightarrow> 's \<Rightarrow> (error + unit) \<times> 's) \<Rightarrow> 'a list \<Rightarrow> 's \<Rightarrow> (error + unit) \<times> 's" where
  "for_each body [] w = (Inr (), w)"
| "for_each body (x # xs) w =
     (case body x w of
        (Inl e, w1) \<Rightarrow> (Inl e, w1)
      | (Inr u, w1) \<Rightarrow> for_each body xs w1)"

section \<open>Dates\<close>

text \<open>
  A date is (year, month, day). \<open>py_int\<close> is \<open>int\<close> on a string of decimal digits;
  the other spellings Python accepts (a sign, surrounding blanks, underscores) are taken as
  malformed here.
\<close>

definition digit_of :: "char \<Rightarrow> nat option" where
  "digit_of c =
     (let n = (of_char c :: nat) in if 48 \<le> n \<and> n \<le> 57 then Some (n - 48) else None)"

fun digits_value :: "nat \<Rightarrow> string \<Rightarrow> nat option" where
  "digits_value acc [] = Some acc"
| "digits_value acc (c # cs) =
     (case digit_of c of None \<Rightarrow> None | Some k \<Rightarrow> digits_value (10 * acc + k) cs)"

definition py_int :: "string \<Rightarrow> error + nat" where
  "py_int s =
     (if s = [] then Inl ValueError
      else case digits_value 0 s of None \<Rightarrow> Inl ValueError | Some n \<Rightarrow> Inr n)"

text \<open>\<open>s.split(c)\<close>: the pieces of \<open>s\<close> between the occurrences of \<open>c\<close>.\<close>

fun split_on :: "char \<Rightarrow> string \<Rightarrow> string list" where
  "split_on c [] = [[]]"
| "split_on c (x # xs) =
     (if x = c then [] # split_on c xs
      else case split_on c xs of [] \<Rightarrow> [[x]] | p # ps \<Rightarrow> (x # p) # ps)"

definition is_leap :: "nat \<Rightarrow> bool" where
  "is_leap y = (y mod 4 = 0 \<and> (y mod 100 \<noteq> 0 \<or> y mod 400 = 0))"

definition days_in_month :: "nat \<Rightarrow> nat \<Rightarrow> nat" where
  "days_in_month y m =
     (if m = 2 then (if is_leap y then 29 else 28)
      else if m = 4 \<or> m = 6 \<or> m = 9 \<or> m = 11 then 30 else 31)"

text \<open>The constructor \<open>date(year, month, day)\<close>, which raises outside the calendar.\<close>

definition mk_date :: "nat \<Rightarrow> nat \<Rightarrow> nat \<Rightarrow> error + date" where
  "mk_date y m d =
     (if 1 \<le> y \<and> y \<le> 9999 \<and> 1 \<le> m \<and> m \<le> 12 \<and> 1 \<le> d \<and> d \<le> days_in_month y m
      then Inr (y, m, d) else Inl ValueError)"

definition convert_to_date_object :: "string \<Rightarrow> error + date" where
  "convert_to_date_object d =
     (case split_on CHR ''-'' d of
        [a, b, c] \<Rightarrow>
          (case py_int a of Inl e \<Rightarrow> Inl e | Inr year \<Rightarrow>
            (case py_int b of Inl e \<Rightarrow> Inl e | Inr month \<Rightarrow>
              (case py_int c of Inl e \<Rightarrow> Inl e | Inr day \<Rightarrow> mk_date year month day)))
      | _ \<Rightarrow> Inl ValueError)"

text \<open>The order of dates: by year, then month, then day.\<close>

fun date_le :: "date \<Rightarrow> date \<Rightarrow> bool" where
  "date_le (y1, m1, d1) (y2, m2, d2) =
     (y1 < y2 \<or> (y1 = y2 \<and> (m1 < m2 \<or> (m1 = m2 \<and> d1 \<le> d2))))"

section \<open>Downloading daily klines\<close>

definition DAILY_INTERVALS :: "string list" where
  "DAILY_INTERVALS =
     [''1m'', ''5m'', ''15m'', ''30m'', ''1h'', ''2h'', ''4h'', ''6h'', ''8h'', ''12h'', ''1d'']"

definition START_DATE :: date where
  "START_DATE = (2017, 1, 1)"

text \<open>
  The two bounds of \<open>download_daily_klines\<close>: a missing or empty bound is the default,
  another one is parsed.
\<close>

definition start_bound :: "string option \<Rightarrow> error + date" where
  "start_bound start_date =
     (if \<not> truthy start_date then Inr START_DATE else convert_to_date_object (the start_date))"

definition end_bound :: "world \<Rightarrow> string option \<Rightarrow> error + date" where
  "end_bound w end_date =
     (if \<not> truthy end_date then Inr (END_DATE w) else convert_to_date_object (the end_date))"

text \<open>
  \<open>list(set(intervals) & set(DAILY_INTERVALS))\<close>: the requested intervals that are daily
  ones, each once. Python leaves the order of the list open; the model takes the order of
  the request.
\<close>

definition daily_intervals :: "string list \<Rightarrow> string list" where
  "daily_intervals intervals = remdups (filter (\<lambda>i. i \<in> set DAILY_INTERVALS) intervals)"

text \<open>The body of the innermost loop, for one date.\<close>

definition daily_kline ::
  "string \<Rightarrow> string \<Rightarrow> string \<Rightarrow> date \<Rightarrow> date \<Rightarrow> string option \<Rightarrow> string option \<Rightarrow> int
     \<Rightarrow> string \<Rightarrow> world \<Rightarrow> (error + unit) \<times> world" where
  "daily_kline trading_type symbol interval start_date end_date date_range folder checksum date w =
     (case convert_to_date_object date of
        Inl e \<Rightarrow> (Inl e, w)
      | Inr current_date \<Rightarrow>
          if date_le start_date current_date \<and> date_le current_date end_date then
            (let path = get_path trading_type ''klines'' ''daily'' symbol (Some interval);
                 file_name = upper symbol @ ''-'' @ interval @ ''-'' @ date @ ''.zip''
             in case download_file path file_name date_range folder w of
                  (Inl e, w1) \<Rightarrow> (Inl e, w1)
                | (Inr u, w1) \<Rightarrow>
                    if checksum = 1 then
                      (let checksum_path = get_path trading_type ''klines'' ''daily'' symbol (Some interval);
                           checksum_file_name =
                             upper symbol @ ''-'' @ interval @ ''-'' @ date @ ''.zip.CHECKSUM''
                       in download_file checksum_path checksum_file_name date_range folder w1)
                    else (Inr (), w1))
          else (Inr (), w))"

definition download_daily_klines ::
  "string \<Rightarrow> string list \<Rightarrow> nat \<Rightarrow> string list \<Rightarrow> string list \<Rightarrow> string option \<Rightarrow> string option
     \<Rightarrow> string option \<Rightarrow> int \<Rightarrow> world \<Rightarrow> (error + unit) \<times> world" where
  "download_daily_klines trading_type symbols num_symbols intervals dates start_date end_date
       folder checksum w =
     (let date_range =
            (if truthy start_date \<and> truthy end_date
             then Some (the start_date @ '' '' @ the end_date) else None)
      in case start_bound start_date of
           Inl e \<Rightarrow> (Inl e, w)
         | Inr start_date \<Rightarrow>
             (case end_bound w end_date of
                Inl e \<Rightarrow> (Inl e, w)
              | Inr end_date \<Rightarrow>
                  let intervals = daily_intervals intervals
                  in for_each (\<lambda>symbol.
                       for_each (\<lambda>interval.
                         for_each (daily_kline trading_type symbol interval start_date end_date
                                     date_range folder checksum) dates) intervals) symbols w))"

text \<open>
  The downloads a call is expected to attempt: one per symbol, daily interval and date in
  range, in the order of the loops; each is the path and the file name given to
  \<open>download_file\<close>, followed by its checksum file when \<open>checksum\<close> is 1.
\<close>

definition in_range :: "date \<Rightarrow> date \<Rightarrow> string \<Rightarrow> bool" where
  "in_range start_date end_date date =
     (case convert_to_date_object date of
        Inl e \<Rightarrow> False
      | Inr current_date \<Rightarrow> date_le start_date current_date \<and> date_le current_date end_date)"

definition kline_triples ::
  "string list \<Rightarrow> string list \<Rightarrow> string list \<Rightarrow> date \<Rightarrow> date \<Rightarrow> (string \<times> string \<times> string) list" where
  "kline_triples symbols intervals dates start_date end_date =
     concat (map (\<lambda>s. concat (map (\<lambda>i. map (\<lambda>d. (s, i, d))
        (filter (in_range start_date end_date) dates)) (daily_intervals intervals))) symbols)"

definition kline_file :: "string \<Rightarrow> string \<times> string \<times> string \<Rightarrow> string \<times> string" where
  "kline_file trading_type t =
     (case t of (s, i, d) \<Rightarrow>
        (get_path trading_type ''klines'' ''daily'' s (Some i), upper s @ ''-'' @ i @ ''-'' @ d @ ''.zip''))"

definition kline_checksum_file :: "string \<Rightarrow> string \<times> string \<times> string \<Rightarrow> string \<times> string" where
  "kline_checksum_file trading_type t =
     (case t of (s, i, d) \<Rightarrow>
        (get_path trading_type ''klines'' ''daily'' s (Some i),
         upper s @ ''-'' @ i @ ''-'' @ d @ ''.zip.CHECKSUM''))"

definition kline_attempts :: "string \<Rightarrow> int \<Rightarrow> string \<times> string \<times> string \<Rightarrow> (string \<times> string) list" where
  "kline_attempts trading_type checksum t =
     kline_file trading_type t # (if checksum = 1 then [kline_checksum_file trading_type t] else [])"

text \<open>A world to run examples in: nothing on disk, and a remote archive with no file.\<close>

definition empty_world :: world where
  "empty_world =
     \<lparr>files = Map.empty, dirs = {}, remote = (\<lambda>url. Http_error), opened = [], calls = [],
      trade_csv = (\<lambda>p. Inl FileNotFoundError), kline_csv = (\<lambda>p. Inl FileNotFoundError),
      STORE_DIRECTORY = None, module_dir = ''/app'', cwd = ''/app'', END_DATE = (2021, 12, 15)\<rparr>"

text \<open>The same world with one archive already on disk.\<close>

definition stocked_world :: world where
  "stocked_world =
     empty_world\<lparr>files :=
       [''/app/data/spot/daily/klines/BTCUSDT/1m/BTCUSDT-1m-2021-11-01.zip'' \<mapsto> ''PK'']\<rparr>"

section \<open>The files of a request\<close>

text \<open>
  \<open>datetime.strptime(s, "%Y-%m-%d")\<close>: a year of four digits, a month and a day of one or
  two digits, and a date of the calendar; anything else raises.
\<close>

definition strptime_ymd :: "string \<Rightarrow> error + date" where
  "strptime_ymd s =
     (case split_on CHR ''-'' s of
        [a, b, c] \<Rightarrow>
          if length a = 4 \<and> 1 \<le> length b \<and> length b \<le> 2 \<and> 1 \<le> length c \<and> length c \<le> 2 then
            (case py_int a of Inl e \<Rightarrow> Inl e | Inr year \<Rightarrow>
              (case py_int b of Inl e \<Rightarrow> Inl e | Inr month \<Rightarrow>
                (case py_int c of Inl e \<Rightarrow> Inl e | Inr day \<Rightarrow> mk_date year month day)))
          else Inl ValueError
      | _ \<Rightarrow> Inl ValueError)"

text \<open>\<open>strftime("%Y-%m-%d")\<close>: the year on four digits, month and day on two.\<close>

definition digit_char :: "nat \<Rightarrow> char" where
  "digit_char k = ''0123456789'' ! (k mod 10)"

definition strftime_ymd :: "date \<Rightarrow> string" where
  "strftime_ymd dt =
     (case dt of (y, m, d) \<Rightarrow>
        [digit_char (y div 1000), digit_char (y div 100), digit_char (y div 10), digit_char y]
        @ ''-'' @ [digit_char (m div 10), digit_char m]
        @ ''-'' @ [digit_char (d div 10), digit_char d])"

text \<open>
  \<open>pandas.date_range(start, end, freq='d')\<close>: every day from \<open>start\<close> to \<open>end\<close>, both
  included; there is none when \<open>end\<close> is before \<open>start\<close>. pandas keeps a time as a number
  of nanoseconds on 64 bits, so it raises \<open>OutOfBoundsDatetime\<close> for a day before
  1677-09-22 or after 2262-04-11. \<open>day_number\<close> counts the days from the first day of
  year 1.
\<close>

definition next_day :: "date \<Rightarrow> date" where
  "next_day dt =
     (case dt of (y, m, d) \<Rightarrow>
        if d < days_in_month y m then (y, m, d + 1)
        else if m < 12 then (y, m + 1, 1)
        else (y + 1, 1, 1))"

fun days_from :: "nat \<Rightarrow> date \<Rightarrow> date list" where
  "days_from 0 dt = []"
| "days_from (Suc n) dt = dt # days_from n (next_day dt)"

definition days_before_month :: "nat \<Rightarrow> nat \<Rightarrow> nat" where
  "days_before_month y m =
     [0, 31, 59, 90, 120, 151, 181, 212, 243, 273, 304, 334] ! (m - 1)
       + (if 2 < m \<and> is_leap y then 1 else 0)"

definition day_number :: "date \<Rightarrow> nat" where
  "day_number dt =
     (case dt of (y, m, d) \<Rightarrow>
        365 * (y - 1) + (y - 1) div 4 - (y - 1) div 100 + (y - 1) div 400
        + days_before_month y m + d)"

definition in_timestamp_bounds :: "date \<Rightarrow> bool" where
  "in_timestamp_bounds dt = (date_le (1677, 9, 22) dt \<and> date_le dt (2262, 4, 11))"

definition pd_date_range :: "date \<Rightarrow> date \<Rightarrow> error + date list" where
  "pd_date_range start_date end_date =
     (if in_timestamp_bounds start_date \<and> in_timestamp_bounds end_date
      then Inr (days_from (Suc (day_number end_date) - day_number start_date) start_date)
      else Inl OutOfBoundsDatetime)"

text \<open>
  A Python \<open>dict\<close> is the list of its items in the order of insertion, with distinct keys;
  \<open>dict_set\<close> is the assignment \<open>d[k] = v\<close>.
\<close>

fun dict_set :: "('k \<times> 'v) list \<Rightarrow> 'k \<Rightarrow> 'v \<Rightarrow> ('k \<times> 'v) list" where
  "dict_set [] k v = [(k, v)]"
| "dict_set ((k', v') # kvs) k v =
     (if k' = k then (k, v) # kvs else (k', v') # dict_set kvs k v)"

definition file_format :: "string \<Rightarrow> string \<Rightarrow> string \<Rightarrow> string \<Rightarrow> string \<Rightarrow> string \<Rightarrow> string" where
  "file_format a b c d e f =
     a @ ''/test_data/binance/data/spot/daily/'' @ b @ ''/'' @ c @ ''/'' @ d @ ''-'' @ e
       @ ''-'' @ f @ ''.zip''"

text \<open>
  The local variables of \<open>downloaded_filepaths\<close> that its loops change: \<open>filepath\<close>, which
  is unbound (\<open>None\<close>) until its first assignment and keeps its value from one round to the
  next, and the dictionary \<open>filepaths\<close>.
\<close>

type_synonym filepaths = "(string \<times> string \<times> string option) list"

type_synonym locals = "string option \<times> filepaths"

text \<open>The body of the loop over the dates, for a symbol with intervals.\<close>

definition interval_date_step ::
  "world \<Rightarrow> string \<Rightarrow> string \<Rightarrow> string \<Rightarrow> date \<Rightarrow> locals \<Rightarrow> (error + unit) \<times> locals" where
  "interval_date_step w type' symbol interval date st =
     (case st of (filepath, filepaths) \<Rightarrow>
        let date_format = strftime_ymd date in
        if type' = ''klines'' then
          (let filepath = file_format (cwd w) type' (symbol @ ''/'' @ interval) symbol interval
                            date_format
           in (Inr (), (Some filepath, dict_set filepaths filepath (symbol, Some interval))))
        else if type' = ''trades'' then
          (let filepath = file_format (cwd w) type' symbol symbol type' date_format
           in (Inr (), (Some filepath, dict_set filepaths filepath (symbol, Some interval))))
        else (Inl ValueError, (filepath, filepaths)))"

text \<open>
  The body of the loop over the dates, for a symbol with no interval: \<open>filepath\<close> is
  assigned for trades only, and read in every case.
\<close>

definition date_step ::
  "world \<Rightarrow> string \<Rightarrow> string \<Rightarrow> date \<Rightarrow> locals \<Rightarrow> (error + unit) \<times> locals" where
  "date_step w type' symbol date st =
     (case st of (filepath, filepaths) \<Rightarrow>
        let date_format = strftime_ymd date;
            filepath = (if type' = ''trades''
                        then Some (file_format (cwd w) type' symbol symbol type' date_format)
                        else filepath)
        in (case filepath of
              None \<Rightarrow> (Inl UnboundLocalError, (filepath, filepaths))
            | Some p \<Rightarrow> (Inr (), (filepath, dict_set filepaths p (symbol, None)))))"

definition symbol_step ::
  "world \<Rightarrow> string \<Rightarrow> date list \<Rightarrow> string \<times> string list \<Rightarrow> locals \<Rightarrow> (error + unit) \<times> locals" where
  "symbol_step w type' dates item st =
     (case item of (symbol, intervals) \<Rightarrow>
        if length intervals > 0 then
          for_each (\<lambda>interval. for_each (interval_date_step w type' symbol interval) dates)
            intervals st
        else for_each (date_step w type' symbol) dates st)"

definition downloaded_filepaths ::
  "world \<Rightarrow> string \<Rightarrow> string \<Rightarrow> string \<Rightarrow> (string \<times> string list) list \<Rightarrow> error + filepaths" where
  "downloaded_filepaths w type' start_date end_date symbol_data_required =
     (case strptime_ymd start_date of
        Inl e \<Rightarrow> Inl e
      | Inr start_date \<Rightarrow>
          (case strptime_ymd end_date of
             Inl e \<Rightarrow> Inl e
           | Inr end_date \<Rightarrow>
               (case pd_date_range start_date end_date of
                  Inl e \<Rightarrow> Inl e
                | Inr dates \<Rightarrow>
                    (case for_each (symbol_step w type' dates) symbol_data_required (None, []) of
                       (Inl e, st) \<Rightarrow> Inl e
                     | (Inr u, (filepath, filepaths)) \<Rightarrow> Inr filepaths))))"

section \<open>Assembling the data sets\<close>

text \<open>
  A row of the table \<open>trade_data_collation\<close> returns, and a row of the table
  \<open>get_binance_kline_data\<close> returns: a kline row with the two columns the function adds
  and with its row label. \<open>read_csv\<close> labels the rows of a file 0, 1, 2, ... and the
  function appends the files without \<open>ignore_index\<close>, so a row keeps the label it has in
  its file, also when the table is sorted.
\<close>

record bar =
  bar_time :: int
  bar_price :: real
  bar_qty :: real
  bar_quoteQty :: real
  bar_symbol :: string

record kline = kline_row +
  kline_symbol :: string
  kline_interval :: "string option"
  row_label :: nat

definition mean :: "real list \<Rightarrow> real" where
  "mean xs = sum_list xs / real (length xs)"

text \<open>
  \<open>df.groupby("time", as_index=False)\<close>: one group for each value of the column, in
  increasing order of the value, with the rows that have it.
\<close>

definition groupby_time :: "trade list \<Rightarrow> (int \<times> trade list) list" where
  "groupby_time df = map (\<lambda>k. (k, filter (\<lambda>r. time r = k) df)) (sort (remdups (map time df)))"

definition agg_mean_sum_sum :: "int \<times> trade list \<Rightarrow> string \<Rightarrow> bar" where
  "agg_mean_sum_sum g symb =
     (case g of (k, rows) \<Rightarrow>
        \<lparr>bar_time = k, bar_price = mean (map price rows), bar_qty = sum_list (map qty rows),
         bar_quoteQty = sum_list (map quoteQty rows), bar_symbol = symb\<rparr>)"

text \<open>The rows \<open>read_csv\<close> keeps: the first \<open>nrows\<close> of them when \<open>limit_rows\<close> is set.\<close>

definition read_rows :: "bool \<Rightarrow> nat \<Rightarrow> 'a list \<Rightarrow> 'a list" where
  "read_rows limit_rows nrows rows = (if limit_rows then take nrows rows else rows)"

definition trade_data_collation ::
  "world \<Rightarrow> string \<Rightarrow> string \<Rightarrow> bool \<Rightarrow> nat \<Rightarrow> error + bar list" where
  "trade_data_collation w filename symb limit_rows nrows =
     (case trade_csv w filename of
        Inl e \<Rightarrow> Inl e
      | Inr rows \<Rightarrow>
          let df = read_rows limit_rows nrows rows;
              df = map (\<lambda>r. r\<lparr>time := (time r div 10000) * 10000\<rparr>) df
          in Inr (map (\<lambda>g. agg_mean_sum_sum g symb) (groupby_time df)))"

text \<open>
  The loops that read the files of a request one after the other and append their rows;
  the first file that cannot be read ends them. \<open>read_csv\<close> raises \<open>EmptyDataError\<close>
  for a file without any row, so a table read from a kline file has a row.
\<close>

fun read_klines :: "world \<Rightarrow> filepaths \<Rightarrow> kline list \<Rightarrow> error + kline list" where
  "read_klines w [] kline_data = Inr kline_data"
| "read_klines w ((filepath, symb, iv) # rest) kline_data =
     (case kline_csv w filepath of
        Inl e \<Rightarrow> Inl e
      | Inr part_df \<Rightarrow>
          if part_df = [] then Inl EmptyDataError
          else read_klines w rest
            (kline_data @
               map (\<lambda>(i, r). kline_row.extend r
                      \<lparr>kline_symbol = symb, kline_interval = iv, row_label = i\<rparr>)
                 (enumerate 0 part_df)))"

fun read_trades :: "world \<Rightarrow> filepaths \<Rightarrow> bar list \<Rightarrow> error + bar list" where
  "read_trades w [] trade_data = Inr trade_data"
| "read_trades w ((filepath, symb, iv) # rest) trade_data =
     (case trade_data_collation w filepath symb False 50000 of
        Inl e \<Rightarrow> Inl e
      | Inr part_data \<Rightarrow> read_trades w rest (trade_data @ part_data))"

text \<open>
  \<open>sort_values(by=column)\<close> is \<open>sort_key\<close>; on a table without any column, which is what
  is there when no file was read, it raises \<open>KeyError\<close>. The order pandas gives to rows
  with the same key is left open by it; \<open>sort_key\<close> keeps them in the order they have.
\<close>

definition get_binance_kline_data ::
  "world \<Rightarrow> string \<Rightarrow> string \<Rightarrow> (string \<times> string list) list \<Rightarrow> error + kline list" where
  "get_binance_kline_data w start_date end_date symbol_data_required =
     (case downloaded_filepaths w ''klines'' start_date end_date symbol_data_required of
        Inl e \<Rightarrow> Inl e
      | Inr filepaths \<Rightarrow>
          (case read_klines w filepaths [] of
             Inl e \<Rightarrow> Inl e
           | Inr kline_data \<Rightarrow>
               if filepaths = [] then Inl KeyError
               else Inr (sort_key close_time kline_data)))"

definition get_binance_trade_data ::
  "world \<Rightarrow> string \<Rightarrow> string \<Rightarrow> string list \<Rightarrow> error + bar list" where
  "get_binance_trade_data w start_date end_date symbols =
     (let symbols_dict = fold (\<lambda>symb d. dict_set d symb []) symbols []
      in case downloaded_filepaths w ''trades'' start_date end_date symbols_dict of
           Inl e \<Rightarrow> Inl e
         | Inr filepaths \<Rightarrow>
             (case read_trades w filepaths [] of
                Inl e \<Rightarrow> Inl e
              | Inr trade_data \<Rightarrow>
                  if filepaths = [] then Inl KeyError
                  else Inr (sort_key bar_time trade_data)))"

text \<open>Example data: three trades in two ten-second buckets, and kline rows.\<close>

definition example_trade :: "int \<Rightarrow> real \<Rightarrow> real \<Rightarrow> trade" where
  "example_trade t p q =
     \<lparr>tradeID = 7, price = p, qty = q, quoteQty = p * q, time = t, isBuyerMaker = False,
      isBestMatch = True\<rparr>"

definition example_kline :: "int \<Rightarrow> real \<Rightarrow> kline_row" where
  "example_kline t c =
     \<lparr>open_time = t - 60000, open_price = c, high = c, low = c, close = c, volume = 5,
      close_time = t, quote_asset_volume = 5 * c, number_of_trades = 3,
      taker_buy_asset_volume = 2, taker_buy_quote_asset_volume = 2 * c, ignore = 0\<rparr>"

definition market_world :: world where
  "market_world =
     empty_world
       \<lparr>trade_csv := (\<lambda>p.
          if p = ''/app/test_data/binance/data/spot/daily/trades/BTCUSDT/BTCUSDT-trades-2021-11-02.zip''
          then Inr [example_trade 25000 8 2, example_trade 12000 4 3, example_trade 19999 6 5]
          else if p = ''/app/test_data/binance/data/spot/daily/trades/BTCUSDT/BTCUSDT-trades-2021-11-03.zip''
          then Inr [example_trade 3000 9 2]
          else Inl FileNotFoundError),
        kline_csv := (\<lambda>p.
          if p = ''/app/test_data/binance/data/spot/daily/klines/BTCUSDT/1m/BTCUSDT-1m-2021-11-02.zip''
          then Inr [example_kline 300 30, example_kline 400 40]
          else if p = ''/app/test_data/binance/data/spot/daily/klines/BTCUSDT/1m/BTCUSDT-1m-2021-11-03.zip''
          then Inr [example_kline 100 10, example_kline 200 20]
          else if p = ''/app/test_data/binance/data/spot/daily/klines/ETHUSDT/1m/ETHUSDT-1m-2021-11-02.zip''
          then Inr [example_kline 300 3, example_kline 400 4]
          else if p = ''/app/test_data/binance/data/spot/daily/klines/ETHUSDT/1m/ETHUSDT-1m-2021-11-03.zip''
          then Inr [example_kline 100 1, example_kline 200 2]
          else Inl FileNotFoundError)\<rparr>"

section \<open>The cointegration plot\<close>

text \<open>
  The result of the Johansen test, as far as the code reads it: the two statistics, their
  critical values and the matrix \<open>evec\<close>, a list of rows. The code takes \<open>evec[i]\<close> as
  eigenvector number \<open>i\<close>. \<open>coint_result\<close> is the class \<open>CointResult\<close>.
\<close>

record johansen =
  lr1 :: "real list"
  cvt :: "real list list"
  lr2 :: "real list"
  cvm :: "real list list"
  evec :: "real list list"

record coint_result =
  self_test_result :: johansen
  self_symbols :: "string list"
  self_interval :: string
  self_start_date :: string
  self_end_date :: string

text \<open>
  A pandas series is the list of its rows, each a row label and a value; a value is a real
  number or NaN (\<open>None\<close>). The table \<open>coint\<close> is its row labels and its columns \<open>'time'\<close>,
  \<open>'price'\<close> and \<open>'price_i'\<close>, each the list of its values in row order.
\<close>

datatype column = Time | Price | Price_n nat

type_synonym series = "(nat \<times> real option) list"

record frame =
  frame_index :: "nat list"
  frame_columns :: "(column \<times> real option list) list"

definition column_of :: "frame \<Rightarrow> column \<Rightarrow> error + series" where
  "column_of df c =
     (case map_of (frame_columns df) c of
        None \<Rightarrow> Inl KeyError
      | Some v \<Rightarrow> Inr (zip (frame_index df) v))"

definition nan_add :: "real option \<Rightarrow> real option \<Rightarrow> real option" where
  "nan_add a b = (case a of None \<Rightarrow> None | Some x \<Rightarrow> (case b of None \<Rightarrow> None | Some y \<Rightarrow> Some (x + y)))"

text \<open>
  The sum of two series. pandas adds row by row when the two have the same labels in the
  same order; otherwise it joins them on the labels: a row of the one is added to every row
  of the other with its label, and a label only one of them has gets NaN.
\<close>

definition series_add :: "series \<Rightarrow> series \<Rightarrow> series" where
  "series_add a b =
     (if map fst a = map fst b then map2 (\<lambda>r s. (fst r, nan_add (snd r) (snd s))) a b
      else
        concat (map (\<lambda>r. case filter (\<lambda>s. fst s = fst r) b of
                             [] \<Rightarrow> [(fst r, None)]
                           | ms \<Rightarrow> map (\<lambda>s. (fst r, nan_add (snd r) (snd s))) ms) a)
        @ map (\<lambda>s. (fst s, None)) (filter (\<lambda>s. fst s \<notin> fst ` set a) b))"

text \<open>
  The assignment \<open>df[c] = s\<close> of a series to a column. A table without rows takes the
  labels of the series. The series goes in as it is when it has the labels of the table in
  their order; otherwise it is looked up label by label (NaN for a label it does not have),
  which pandas refuses with \<open>ValueError\<close> when a label occurs twice in the series.
\<close>

definition setitem :: "frame \<Rightarrow> column \<Rightarrow> series \<Rightarrow> error + frame" where
  "setitem df c s =
     (let df = (if frame_index df = [] \<and> s \<noteq> []
                then \<lparr>frame_index = map fst s,
                      frame_columns = map (\<lambda>kv. (fst kv, map (\<lambda>r. None) s)) (frame_columns df)\<rparr>
                else df)
      in if map fst s = frame_index df then
           Inr (df\<lparr>frame_columns := dict_set (frame_columns df) c (map snd s)\<rparr>)
         else if distinct (map fst s) then
           Inr (df\<lparr>frame_columns := dict_set (frame_columns df) c
                  (map (\<lambda>l. case map_of s l of None \<Rightarrow> None | Some v \<Rightarrow> v) (frame_index df))\<rparr>)
         else Inl ValueError)"

text \<open>Indexing a sequence, as Python and numpy do it: a negative index counts from the end.\<close>

definition np_index :: "'a list \<Rightarrow> int \<Rightarrow> error + 'a" where
  "np_index xs i =
     (let n = int (length xs); j = (if i < 0 then i + n else i)
      in if 0 \<le> j \<and> j < n then Inr (xs ! nat j) else Inl IndexError)"

text \<open>\<open>self.test_result.evec[i][j]\<close>.\<close>

definition evec_component :: "coint_result \<Rightarrow> int \<Rightarrow> int \<Rightarrow> error + real" where
  "evec_component self i j =
     (case np_index (evec (self_test_result self)) i of
        Inl e \<Rightarrow> Inl e
      | Inr row \<Rightarrow> np_index row j)"

text \<open>
  The kline data of one symbol, as each round of the loops fetches it, and the two series
  the loops take from it: \<open>data['close time']\<close> and \<open>data['close'] * c\<close>.
\<close>

definition symbol_klines :: "world \<Rightarrow> coint_result \<Rightarrow> string \<Rightarrow> error + kline list" where
  "symbol_klines w self symbol =
     get_binance_kline_data w (self_start_date self) (self_end_date self)
       [(symbol, [self_interval self])]"

definition close_time_series :: "kline list \<Rightarrow> series" where
  "close_time_series data = map (\<lambda>r. (row_label r, Some (real_of_int (close_time r)))) data"

definition scaled_close_series :: "kline list \<Rightarrow> real \<Rightarrow> series" where
  "scaled_close_series data c = map (\<lambda>r. (row_label r, Some (close r * c))) data"

text \<open>
  The loop body for \<open>include_all_evecs=False\<close>; the state is the table and the counter.
\<close>

definition price_step ::
  "world \<Rightarrow> coint_result \<Rightarrow> int \<Rightarrow> string \<Rightarrow> frame \<times> nat \<Rightarrow> (error + unit) \<times> (frame \<times> nat)" where
  "price_step w self evec' symbol st =
     (case st of (coint, counter) \<Rightarrow>
        (case symbol_klines w self symbol of
           Inl e \<Rightarrow> (Inl e, st)
         | Inr data \<Rightarrow>
             if Price \<notin> fst ` set (frame_columns coint) then
               (case setitem coint Time (close_time_series data) of
                  Inl e \<Rightarrow> (Inl e, st)
                | Inr coint \<Rightarrow>
                    (case evec_component self evec' (int counter) of
                       Inl e \<Rightarrow> (Inl e, st)
                     | Inr c \<Rightarrow>
                         (case setitem coint Price (scaled_close_series data c) of
                            Inl e \<Rightarrow> (Inl e, st)
                          | Inr coint \<Rightarrow> (Inr (), (coint, counter + 1)))))
             else
               (case column_of coint Price of
                  Inl e \<Rightarrow> (Inl e, st)
                | Inr p \<Rightarrow>
                    (case evec_component self evec' (int counter) of
                       Inl e \<Rightarrow> (Inl e, st)
                     | Inr c \<Rightarrow>
                         (case setitem coint Price
                                 (series_add p (scaled_close_series data c)) of
                            Inl e \<Rightarrow> (Inl e, st)
                          | Inr coint \<Rightarrow> (Inr (), (coint, counter + 1)))))))"

text \<open>
  The assignments to the column \<open>'price_i'\<close> for \<open>include_all_evecs=True\<close>: the one of
  \<open>src/coint.py\<close>, which sets the column, and the one of \<open>researchtools/__init__.py\<close> for
  the symbols after the first, which adds to it.
\<close>

definition set_price_n ::
  "coint_result \<Rightarrow> kline list \<Rightarrow> nat \<Rightarrow> nat \<Rightarrow> frame \<Rightarrow> (error + unit) \<times> frame" where
  "set_price_n self data counter i coint =
     (case evec_component self (int i) (int counter) of
        Inl e \<Rightarrow> (Inl e, coint)
      | Inr c \<Rightarrow>
          (case setitem coint (Price_n i) (scaled_close_series data c) of
             Inl e \<Rightarrow> (Inl e, coint)
           | Inr coint' \<Rightarrow> (Inr (), coint')))"

definition add_price_n ::
  "coint_result \<Rightarrow> kline list \<Rightarrow> nat \<Rightarrow> nat \<Rightarrow> frame \<Rightarrow> (error + unit) \<times> frame" where
  "add_price_n self data counter i coint =
     (case column_of coint (Price_n i) of
        Inl e \<Rightarrow> (Inl e, coint)
      | Inr p \<Rightarrow>
          (case evec_component self (int i) (int counter) of
             Inl e \<Rightarrow> (Inl e, coint)
           | Inr c \<Rightarrow>
               (case setitem coint (Price_n i) (series_add p (scaled_close_series data c)) of
                  Inl e \<Rightarrow> (Inl e, coint)
                | Inr coint' \<Rightarrow> (Inr (), coint'))))"

text \<open>
  The loop body for \<open>include_all_evecs=True\<close>, with the assignment used for the symbols
  after the first as a parameter.
\<close>

definition all_evecs_step ::
  "(coint_result \<Rightarrow> kline list \<Rightarrow> nat \<Rightarrow> nat \<Rightarrow> frame \<Rightarrow> (error + unit) \<times> frame)
     \<Rightarrow> world \<Rightarrow> coint_result \<Rightarrow> string \<Rightarrow> frame \<times> nat \<Rightarrow> (error + unit) \<times> (frame \<times> nat)" where
  "all_evecs_step later w self symbol st =
     (case st of (coint, counter) \<Rightarrow>
        (case symbol_klines w self symbol of
           Inl e \<Rightarrow> (Inl e, st)
         | Inr data \<Rightarrow>
             if Price_n 0 \<notin> fst ` set (frame_columns coint) then
               (case setitem coint Time (close_time_series data) of
                  Inl e \<Rightarrow> (Inl e, st)
                | Inr coint \<Rightarrow>
                    (case for_each (set_price_n self data counter)
                            [0..<length (self_symbols self)] coint of
                       (Inl e, coint) \<Rightarrow> (Inl e, st)
                     | (Inr u, coint) \<Rightarrow> (Inr (), (coint, counter + 1))))
             else
               (case for_each (later self data counter) [0..<length (self_symbols self)] coint of
                  (Inl e, coint) \<Rightarrow> (Inl e, st)
                | (Inr u, coint) \<Rightarrow> (Inr (), (coint, counter + 1)))))"

text \<open>The figure: its traces, each with its name, its two series and the row it is on.\<close>

datatype trace_name = Cointegrating | Cointegrating_n nat | Underlying string

record trace =
  trace_name :: trace_name
  trace_x :: "real option list"
  trace_y :: "real option list"
  trace_row :: nat

definition evec_trace :: "frame \<Rightarrow> nat \<Rightarrow> trace list \<Rightarrow> (error + unit) \<times> trace list" where
  "evec_trace coint i fig =
     (case column_of coint Time of
        Inl e \<Rightarrow> (Inl e, fig)
      | Inr t \<Rightarrow>
          (case column_of coint (Price_n i) of
             Inl e \<Rightarrow> (Inl e, fig)
           | Inr p \<Rightarrow>
               (Inr (), fig @ [\<lparr>trace_name = Cointegrating_n i, trace_x = map snd t,
                                trace_y = map snd p, trace_row = i + 1\<rparr>])))"

definition underlying_trace ::
  "world \<Rightarrow> coint_result \<Rightarrow> string \<Rightarrow> trace list \<times> nat \<Rightarrow> (error + unit) \<times> (trace list \<times> nat)" where
  "underlying_trace w self symbol st =
     (case st of (fig, counter) \<Rightarrow>
        (case symbol_klines w self symbol of
           Inl e \<Rightarrow> (Inl e, st)
         | Inr data \<Rightarrow>
             (Inr (), (fig @ [\<lparr>trace_name = Underlying symbol,
                               trace_x = map (\<lambda>r. Some (real_of_int (close_time r))) data,
                               trace_y = map (\<lambda>r. Some (close r)) data,
                               trace_row = counter\<rparr>], counter + 1))))"

text \<open>
  The traces of the spread: one for \<open>'price'\<close>, or one for each \<open>'price_i'\<close>;
  \<open>make_subplots\<close> raises when it is asked for no row.
\<close>

definition spread_traces :: "coint_result \<Rightarrow> bool \<Rightarrow> frame \<Rightarrow> error + trace list" where
  "spread_traces self include_all_evecs coint =
     (if \<not> include_all_evecs then
        (case column_of coint Time of
           Inl e \<Rightarrow> Inl e
         | Inr t \<Rightarrow>
             (case column_of coint Price of
                Inl e \<Rightarrow> Inl e
              | Inr p \<Rightarrow>
                  Inr [\<lparr>trace_name = Cointegrating, trace_x = map snd t, trace_y = map snd p,
                        trace_row = 1\<rparr>]))
      else if length (self_symbols self) = 0 then Inl ValueError
      else (case for_each (evec_trace coint) [0..<length (self_symbols self)] [] of
              (Inl e, fig) \<Rightarrow> Inl e
            | (Inr u, fig) \<Rightarrow> Inr fig))"

definition coint_plot ::
  "(coint_result \<Rightarrow> kline list \<Rightarrow> nat \<Rightarrow> nat \<Rightarrow> frame \<Rightarrow> (error + unit) \<times> frame)
     \<Rightarrow> world \<Rightarrow> coint_result \<Rightarrow> bool \<Rightarrow> bool \<Rightarrow> int \<Rightarrow> error + trace list" where
  "coint_plot later w self include_all_evecs include_underlying evec' =
     (case (if \<not> include_all_evecs
            then for_each (price_step w self evec') (self_symbols self)
                   (\<lparr>frame_index = [], frame_columns = []\<rparr>, 0)
            else for_each (all_evecs_step later w self) (self_symbols self)
                   (\<lparr>frame_index = [], frame_columns = []\<rparr>, 0)) of
        (Inl e, st) \<Rightarrow> Inl e
      | (Inr u, (coint, counter)) \<Rightarrow>
          (case spread_traces self include_all_evecs coint of
             Inl e \<Rightarrow> Inl e
           | Inr fig \<Rightarrow>
               if \<not> include_underlying then Inr fig
               else
                 (let counter = (if \<not> include_all_evecs then 2 else length (self_symbols self) + 1)
                  in case for_each (underlying_trace w self) (self_symbols self) (fig, counter) of
                       (Inl e, st) \<Rightarrow> Inl e
                     | (Inr u, (fig, counter)) \<Rightarrow> Inr fig)))"

text \<open>
  \<open>CointResult.get_coint_plot\<close> of \<open>src/coint.py\<close>, and the one of
  \<open>researchtools/__init__.py\<close>.
\<close>

definition get_coint_plot :: "world \<Rightarrow> coint_result \<Rightarrow> bool \<Rightarrow> bool \<Rightarrow> int \<Rightarrow> error + trace list" where
  "get_coint_plot = coint_plot set_price_n"

definition get_coint_plot_packaged ::
  "world \<Rightarrow> coint_result \<Rightarrow> bool \<Rightarrow> bool \<Rightarrow> int \<Rightarrow> error + trace list" where
  "get_coint_plot_packaged = coint_plot add_price_n"

text \<open>
  The spread as the specification words it: at each time index, the sum over the symbols of
  the symbol's closing price times the component of the eigenvector at the symbol's
  position. \<open>closes\<close> are the closing-price series of the symbols, in their order.
\<close>

definition spread_series :: "real list list \<Rightarrow> real list \<Rightarrow> nat \<Rightarrow> real list" where
  "spread_series closes row n = map (\<lambda>k. \<Sum>j<length closes. closes ! j ! k * row ! j) [0..<n]"

text \<open>An example result for two symbols.\<close>

definition example_result :: coint_result where
  "example_result =
     \<lparr>self_test_result = \<lparr>lr1 = [20, 3], cvt = [[13, 15, 19], [2, 3, 6]], lr2 = [17, 3],
                           cvm = [[12, 14, 18], [2, 3, 6]], evec = [[1, 2], [3, 4]]\<rparr>,
      self_symbols = [''BTCUSDT'', ''ETHUSDT''], self_interval = ''1m'',
      self_start_date = ''2021-11-02'', self_end_date = ''2021-11-02''\<rparr>"

text \<open>The kline data of the two symbols of the example, for its one day.\<close>

definition example_data :: "string \<Rightarrow> kline list" where
  "example_data s =
     (if s = ''BTCUSDT''
      then [kline_row.extend (example_kline 300 30)
              \<lparr>kline_symbol = s, kline_interval = Some ''1m'', row_label = 0\<rparr>,
            kline_row.extend (example_kline 400 40)
              \<lparr>kline_symbol = s, kline_interval = Some ''1m'', row_label = 1\<rparr>]
      else [kline_row.extend (example_kline 300 3)
              \<lparr>kline_symbol = s, kline_interval = Some ''1m'', row_label = 0\<rparr>,
            kline_row.extend (example_kline 400 4)
              \<lparr>kline_symbol = s, kline_interval = Some ''1m'', row_label = 1\<rparr>])"

text \<open>
  The same market with the two rows of one file of the second symbol listed in the other
  order: after sorting, its row for the close time 300 has the label 1.
\<close>

definition shuffled_world :: world where
  "shuffled_world =
     market_world
       \<lparr>kline_csv := (\<lambda>p.
          if p = ''/app/test_data/binance/data/spot/daily/klines/ETHUSDT/1m/ETHUSDT-1m-2021-11-02.zip''
          then Inr [example_kline 400 4, example_kline 300 3]
          else kline_csv market_world p)\<rparr>"

section \<open>The path convention\<close>

lemma of_char_char_of_nat: "n < 256 \<Longrightarrow> of_char (char_of (n::nat)) = n"
  by simp

lemma upper_char_not_lower: "\<not> is_ascii_lower (upper_char c)"
  unfolding is_ascii_lower_def upper_char_def Let_def
  by (auto simp: of_char_char_of_nat)

lemma upper_btcusdt: "upper ''btcusdt'' = ''BTCUSDT''"
  by code_simp

text \<open>
  Claim C6. \<open>get_path\<close> is a function of its five arguments alone (it reads nothing of the
  world), and its value follows the convention: \<open>data/spot/<period>/<kind>/<SYMBOL>/<interval>/\<close>
  for spot, without the interval segment when no interval is given, with
  \<open>data/futures/<type>\<close> in place of \<open>data/spot\<close> for another trading type, always ending
  in a slash, and with the symbol in upper case (no lower-case letter is left in it).
\<close>

theorem get_path_convention:
  "get_path ''spot'' kind period symbol (Some interval) =
     ''data/spot/'' @ period @ ''/'' @ kind @ ''/'' @ upper symbol @ ''/'' @ interval @ ''/''
   \<and> get_path ''spot'' kind period symbol None =
     ''data/spot/'' @ period @ ''/'' @ kind @ ''/'' @ upper symbol @ ''/''
   \<and> (trading_type \<noteq> ''spot'' \<longrightarrow>
        get_path trading_type kind period symbol iv =
          ''data/futures/'' @ trading_type
            @ drop (length ''data/spot'') (get_path ''spot'' kind period symbol iv))
   \<and> last (get_path trading_type kind period symbol iv) = CHR ''/''
   \<and> length (upper symbol) = length symbol
   \<and> (\<forall>c \<in> set (upper symbol). \<not> is_ascii_lower c)"
proof -
  have "\<forall>c \<in> set (upper symbol). \<not> is_ascii_lower c"
    by (auto simp: upper_def upper_char_not_lower)
  moreover have "length (upper symbol) = length symbol"
    by (simp add: upper_def)
  moreover have "last (get_path trading_type kind period symbol iv) = CHR ''/''"
    by (cases iv) (simp_all add: get_path_def Let_def)
  moreover have "trading_type \<noteq> ''spot'' \<longrightarrow>
        get_path trading_type kind period symbol iv =
          ''data/futures/'' @ trading_type
            @ drop (length ''data/spot'') (get_path ''spot'' kind period symbol iv)"
    by (cases iv) (simp_all add: get_path_def Let_def)
  ultimately show ?thesis
    by (simp add: get_path_def Let_def)
qed

theorem get_path_convention_witness:
  "''um'' \<noteq> ''spot''
   \<and> get_path ''um'' ''klines'' ''daily'' ''btcusdt'' (Some ''1m'') =
       ''data/futures/um/daily/klines/BTCUSDT/1m/''
   \<and> get_path ''spot'' ''trades'' ''monthly'' ''btcusdt'' None =
       ''data/spot/monthly/trades/BTCUSDT/''"
  using get_path_convention [of "''klines''" "''daily''" "''btcusdt''" "''1m''" "''um''" "Some ''1m''"]
    get_path_convention [of "''trades''" "''monthly''" "''btcusdt''" "''1m''" "''um''" None]
  by (simp add: upper_btcusdt)

section \<open>Downloading one file\<close>

lemma exists_upd [simp]:
  "exists (w\<lparr>calls := c\<rparr>) p = exists w p"
  "exists (w\<lparr>opened := u\<rparr>) p = exists w p"
  by (simp_all add: exists_def)

lemma get_destination_dir_upd [simp]:
  "get_destination_dir (w\<lparr>calls := c\<rparr>) p fo = get_destination_dir w p fo"
  "get_destination_dir (w\<lparr>opened := u\<rparr>) p fo = get_destination_dir w p fo"
  "get_destination_dir (w\<lparr>files := fs\<rparr>) p fo = get_destination_dir w p fo"
  "get_destination_dir (w\<lparr>dirs := ds\<rparr>) p fo = get_destination_dir w p fo"
  by (simp_all add: get_destination_dir_def Let_def)

lemma save_path_of_upd [simp]:
  "save_path_of (w\<lparr>calls := c\<rparr>) b f fo = save_path_of w b f fo"
  "save_path_of (w\<lparr>opened := u\<rparr>) b f fo = save_path_of w b f fo"
  "save_path_of (w\<lparr>files := fs\<rparr>) b f fo = save_path_of w b f fo"
  "save_path_of (w\<lparr>dirs := ds\<rparr>) b f fo = save_path_of w b f fo"
  by (simp_all add: save_path_of_def Let_def)

lemma get_destination_dir_env:
  "STORE_DIRECTORY w' = STORE_DIRECTORY w \<Longrightarrow> module_dir w' = module_dir w \<Longrightarrow>
   get_destination_dir w' p fo = get_destination_dir w p fo"
  by (simp add: get_destination_dir_def Let_def)

lemma save_path_of_env:
  "STORE_DIRECTORY w' = STORE_DIRECTORY w \<Longrightarrow> module_dir w' = module_dir w \<Longrightarrow>
   save_path_of w' b f fo = save_path_of w b f fo"
  by (simp add: save_path_of_def get_destination_dir_def Let_def)

lemma download_file_unfold:
  "download_file b f dr fo w0 =
    (let w = w0\<lparr>calls := calls w0 @ [(b, f)]\<rparr>;
         bp = local_base fo b;
         sp = save_path_of w0 b f fo
     in if exists w0 sp then (Inr (), w)
        else case (if \<not> exists w0 bp then mkdir_parents (get_destination_dir w0 bp None) w else Inr w) of
            Inl e \<Rightarrow> (Inl e, w)
          | Inr w1 \<Rightarrow> try_download sp (b @ f) w1)"
  by (simp add: download_file_def save_path_of_def local_base_def Let_def cong: sum.case_cong)

lemma download_file_present:
  "exists w (save_path_of w b f fo) \<Longrightarrow>
     download_file b f dr fo w = (Inr (), w\<lparr>calls := calls w @ [(b, f)]\<rparr>)"
  by (simp add: download_file_unfold Let_def)

lemma download_file_mkfail:
  "\<not> exists w (save_path_of w b f fo) \<Longrightarrow> \<not> exists w (local_base fo b) \<Longrightarrow>
   get_destination_dir w (local_base fo b) None \<in> dom (files w) \<Longrightarrow>
   download_file b f dr fo w = (Inl FileExistsError, w\<lparr>calls := calls w @ [(b, f)]\<rparr>)"
  by (simp add: download_file_unfold Let_def mkdir_parents_def)

lemma download_file_mk:
  "\<not> exists w (save_path_of w b f fo) \<Longrightarrow> \<not> exists w (local_base fo b) \<Longrightarrow>
   get_destination_dir w (local_base fo b) None \<notin> dom (files w) \<Longrightarrow>
   download_file b f dr fo w =
     try_download (save_path_of w b f fo) (b @ f)
       (w\<lparr>calls := calls w @ [(b, f)],
           dirs := dirs w \<union> {get_destination_dir w (local_base fo b) None}
                     \<union> set (parents [] (get_destination_dir w (local_base fo b) None))\<rparr>)"
  by (simp add: download_file_unfold Let_def mkdir_parents_def)

lemma download_file_nomk:
  "\<not> exists w (save_path_of w b f fo) \<Longrightarrow> exists w (local_base fo b) \<Longrightarrow>
   download_file b f dr fo w =
     try_download (save_path_of w b f fo) (b @ f) (w\<lparr>calls := calls w @ [(b, f)]\<rparr>)"
  by (simp add: download_file_unfold Let_def)

lemma try_download_Http:
  "remote w (get_download_url dp) = Http_error \<Longrightarrow>
     try_download sp dp w = (Inr (), w\<lparr>opened := opened w @ [get_download_url dp]\<rparr>)"
  by (simp add: try_download_def Let_def)

lemma try_download_Url:
  "remote w (get_download_url dp) = Url_error \<Longrightarrow>
     try_download sp dp w = (Inl URLError, w\<lparr>opened := opened w @ [get_download_url dp]\<rparr>)"
  by (simp add: try_download_def Let_def)

lemma try_download_dir:
  "remote w (get_download_url dp) = Reply l b \<Longrightarrow> sp \<in> dirs w \<Longrightarrow>
     try_download sp dp w =
       (Inl IsADirectoryError, w\<lparr>opened := opened w @ [get_download_url dp]\<rparr>)"
  by (simp add: try_download_def Let_def open_wb_def)

lemma try_download_file:
  "remote w (get_download_url dp) = Reply l b \<Longrightarrow> sp \<notin> dirs w \<Longrightarrow>
     sp \<in> dom (files (snd (try_download sp dp w)))"
  by (cases l) (simp_all add: try_download_def Let_def open_wb_def split: prod.splits)

lemma try_download_fs:
  "dirs (snd (try_download sp dp w)) = dirs w"
  "remote (snd (try_download sp dp w)) = remote w"
  "STORE_DIRECTORY (snd (try_download sp dp w)) = STORE_DIRECTORY w"
  "module_dir (snd (try_download sp dp w)) = module_dir w"
  "calls (snd (try_download sp dp w)) = calls w"
  by (simp_all add: try_download_def Let_def open_wb_def
        split: reply.splits option.splits prod.splits)

lemma download_file_env:
  "remote (snd (download_file b f dr fo w)) = remote w"
  "STORE_DIRECTORY (snd (download_file b f dr fo w)) = STORE_DIRECTORY w"
  "module_dir (snd (download_file b f dr fo w)) = module_dir w"
  by (simp_all add: download_file_unfold Let_def mkdir_parents_def try_download_fs
        split: sum.splits)

lemma download_file_calls:
  "calls (snd (download_file b f dr fo w)) = calls w @ [(b, f)]"
  by (simp add: download_file_unfold Let_def mkdir_parents_def try_download_fs split: sum.splits)

lemma try_download_quiet:
  "remote w (get_download_url dp) = Http_error \<or> remote w (get_download_url dp) = Url_error \<Longrightarrow>
   files (snd (try_download sp dp w)) = files w \<and> dirs (snd (try_download sp dp w)) = dirs w"
  by (auto simp: try_download_Http try_download_Url)

lemma try_download_exists:
  "remote w (get_download_url dp) = Reply l body \<Longrightarrow> exists (snd (try_download sp dp w)) sp"
  by (cases "sp \<in> dirs w") (auto simp: exists_def try_download_dir dest: try_download_file)

text \<open>
  What a call leaves behind: the save path exists afterwards, or the files are as before
  and either the directory could not be made or the remote request failed.
\<close>

lemma download_file_outcome:
  "exists (snd (download_file b f dr fo w)) (save_path_of w b f fo) \<or>
   (files (snd (download_file b f dr fo w)) = files w \<and>
    (get_destination_dir w (local_base fo b) None \<in> dom (files w) \<and> \<not> exists w (local_base fo b)
       \<and> dirs (snd (download_file b f dr fo w)) = dirs w
     \<or> (remote w (get_download_url (b @ f)) = Http_error
          \<or> remote w (get_download_url (b @ f)) = Url_error) \<and>
       (exists w (local_base fo b) \<and> dirs (snd (download_file b f dr fo w)) = dirs w
       \<or> get_destination_dir w (local_base fo b) None \<notin> dom (files w) \<and>
          dirs (snd (download_file b f dr fo w)) =
            dirs w \<union> {get_destination_dir w (local_base fo b) None}
              \<union> set (parents [] (get_destination_dir w (local_base fo b) None)))))"
proof (cases "exists w (save_path_of w b f fo)")
  case True
  then show ?thesis by (simp add: download_file_present)
next
  case nex: False
  show ?thesis
  proof (cases "exists w (local_base fo b)")
    case True
    show ?thesis
    proof (cases "remote w (get_download_url (b @ f))")
      case (Reply l body)
      then show ?thesis using nex True by (simp add: download_file_nomk try_download_exists)
    qed (use nex True in \<open>simp_all add: download_file_nomk try_download_quiet\<close>)
  next
    case nb: False
    show ?thesis
    proof (cases "get_destination_dir w (local_base fo b) None \<in> dom (files w)")
      case True
      then show ?thesis using nex nb by (simp add: download_file_mkfail)
    next
      case False
      show ?thesis
      proof (cases "remote w (get_download_url (b @ f))")
        case (Reply l body)
        then show ?thesis
          using nex nb False by (simp add: download_file_mk try_download_exists)
      qed (use nex nb False in \<open>simp_all add: download_file_mk try_download_quiet\<close>)
    qed
  qed
qed

lemma download_file_again:
  "files (snd (download_file b f dr fo (snd (download_file b f dr fo w)))) =
     files (snd (download_file b f dr fo w)) \<and>
   dirs (snd (download_file b f dr fo (snd (download_file b f dr fo w)))) =
     dirs (snd (download_file b f dr fo w))"
proof -
  define w1 where "w1 = snd (download_file b f dr fo w)"
  define sp where "sp = save_path_of w b f fo"
  define bp where "bp = local_base fo b"
  define D where "D = get_destination_dir w bp None"
  define url where "url = get_download_url (b @ f)"
  have sp1: "save_path_of w1 b f fo = sp"
    unfolding w1_def sp_def by (rule save_path_of_env) (simp_all add: download_file_env)
  have D1: "get_destination_dir w1 bp None = D"
    unfolding w1_def D_def by (rule get_destination_dir_env) (simp_all add: download_file_env)
  have r1: "remote w1 = remote w"
    unfolding w1_def by (simp add: download_file_env)
  have cls: "exists w1 sp \<or>
     (files w1 = files w \<and>
      (D \<in> dom (files w) \<and> \<not> exists w bp \<and> dirs w1 = dirs w
       \<or> (remote w url = Http_error \<or> remote w url = Url_error) \<and>
         (exists w bp \<and> dirs w1 = dirs w
          \<or> D \<notin> dom (files w) \<and> dirs w1 = dirs w \<union> {D} \<union> set (parents [] D))))"
    unfolding w1_def sp_def bp_def D_def url_def by (rule download_file_outcome)
  have "files (snd (download_file b f dr fo w1)) = files w1 \<and>
        dirs (snd (download_file b f dr fo w1)) = dirs w1"
  proof (cases "exists w1 sp")
    case True
    then show ?thesis using download_file_present [of w1 b f fo dr] sp1 by simp
  next
    case nex: False
    with cls have fw: "files w1 = files w" by blast
    from nex sp1 have nex1: "\<not> exists w1 (save_path_of w1 b f fo)" by simp
    from nex cls consider
        (mkfail) "D \<in> dom (files w)" "\<not> exists w bp" "dirs w1 = dirs w"
      | (nomk) "remote w url = Http_error \<or> remote w url = Url_error" "exists w bp"
          "dirs w1 = dirs w"
      | (mk) "remote w url = Http_error \<or> remote w url = Url_error" "D \<notin> dom (files w)"
          "dirs w1 = dirs w \<union> {D} \<union> set (parents [] D)"
      by blast
    then show ?thesis
    proof cases
      case mkfail
      then have "\<not> exists w1 bp" "D \<in> dom (files w1)"
        using fw by (simp_all add: exists_def)
      then show ?thesis
        using download_file_mkfail [OF nex1, of dr] D1 by (simp add: bp_def)
    next
      case nomk
      then have e: "exists w1 (local_base fo b)"
        using fw by (simp add: exists_def bp_def)
      from nomk(1) r1 have
        "remote (w1\<lparr>calls := calls w1 @ [(b, f)]\<rparr>) (get_download_url (b @ f)) = Http_error
         \<or> remote (w1\<lparr>calls := calls w1 @ [(b, f)]\<rparr>) (get_download_url (b @ f)) = Url_error"
        by (simp add: url_def)
      from try_download_quiet [OF this, of "save_path_of w1 b f fo"] show ?thesis
        by (simp add: download_file_nomk [OF nex1 e])
    next
      case mk
      show ?thesis
      proof (cases "exists w1 (local_base fo b)")
        case e: True
        from mk(1) r1 have
          "remote (w1\<lparr>calls := calls w1 @ [(b, f)]\<rparr>) (get_download_url (b @ f)) = Http_error
           \<or> remote (w1\<lparr>calls := calls w1 @ [(b, f)]\<rparr>) (get_download_url (b @ f)) = Url_error"
          by (simp add: url_def)
        from try_download_quiet [OF this, of "save_path_of w1 b f fo"] show ?thesis
          by (simp add: download_file_nomk [OF nex1 e])
      next
        case ne: False
        have dn: "get_destination_dir w1 (local_base fo b) None \<notin> dom (files w1)"
          using mk(2) fw D1 by (simp add: bp_def)
        let ?wm = "w1\<lparr>calls := calls w1 @ [(b, f)],
           dirs := dirs w1 \<union> {get_destination_dir w1 (local_base fo b) None}
                     \<union> set (parents [] (get_destination_dir w1 (local_base fo b) None))\<rparr>"
        from mk(1) r1 have "remote ?wm (get_download_url (b @ f)) = Http_error
             \<or> remote ?wm (get_download_url (b @ f)) = Url_error"
          by (simp add: url_def)
        from try_download_quiet [OF this, of "save_path_of w1 b f fo"] have
          "files (snd (download_file b f dr fo w1)) = files w1"
          "dirs (snd (download_file b f dr fo w1)) = dirs w1 \<union> {D} \<union> set (parents [] D)"
          using D1 by (simp_all add: download_file_mk [OF nex1 ne dn] bp_def)
        then show ?thesis using mk(3) by auto
      qed
    qed
  qed
  then show ?thesis by (simp add: w1_def)
qed

text \<open>
  Claim C1. When the save path of a download already exists, \<open>download_file\<close> returns at
  once: no URL is opened and no file or directory changes (only the record of the call is
  added). And a second run of the same download, right after the first, leaves the files
  and directories as the first run left them.
\<close>

theorem download_file_skips_and_is_idempotent:
  "(exists w (save_path_of w base_path file_name folder) \<longrightarrow>
      download_file base_path file_name date_range folder w =
        (Inr (), w\<lparr>calls := calls w @ [(base_path, file_name)]\<rparr>))
   \<and> files (snd (download_file base_path file_name date_range folder
               (snd (download_file base_path file_name date_range folder w)))) =
       files (snd (download_file base_path file_name date_range folder w))
   \<and> dirs (snd (download_file base_path file_name date_range folder
               (snd (download_file base_path file_name date_range folder w)))) =
       dirs (snd (download_file base_path file_name date_range folder w))"
  using download_file_again [of base_path file_name date_range folder w]
  by (simp add: download_file_present)

lemma stocked_world_save_path:
  "save_path_of stocked_world ''data/spot/daily/klines/BTCUSDT/1m/'' ''BTCUSDT-1m-2021-11-01.zip'' None =
     ''/app/data/spot/daily/klines/BTCUSDT/1m/BTCUSDT-1m-2021-11-01.zip''"
  by (simp add: save_path_of_def get_destination_dir_def truthy_def path_join_def
        stocked_world_def empty_world_def)

theorem download_file_skips_and_is_idempotent_witness:
  "exists stocked_world
     (save_path_of stocked_world ''data/spot/daily/klines/BTCUSDT/1m/''
        ''BTCUSDT-1m-2021-11-01.zip'' None)
   \<and> download_file ''data/spot/daily/klines/BTCUSDT/1m/'' ''BTCUSDT-1m-2021-11-01.zip'' None None
        stocked_world =
       (Inr (), stocked_world\<lparr>calls := calls stocked_world @
          [(''data/spot/daily/klines/BTCUSDT/1m/'', ''BTCUSDT-1m-2021-11-01.zip'')]\<rparr>)"
proof -
  have e: "exists stocked_world
     (save_path_of stocked_world ''data/spot/daily/klines/BTCUSDT/1m/''
        ''BTCUSDT-1m-2021-11-01.zip'' None)"
    unfolding stocked_world_save_path
    by (simp add: exists_def stocked_world_def)
  with download_file_skips_and_is_idempotent
    [of stocked_world "''data/spot/daily/klines/BTCUSDT/1m/''" "''BTCUSDT-1m-2021-11-01.zip''"
      None None]
  show ?thesis by blast
qed

section \<open>Downloading daily klines\<close>

lemma for_each_calls:
  assumes body: "\<And>x w w'. body x w = (Inr (), w') \<Longrightarrow> calls w' = calls w @ g x"
  shows "for_each body xs w = (Inr (), w') \<Longrightarrow> calls w' = calls w @ concat (map g xs)"
proof (induction xs arbitrary: w)
  case Nil
  then show ?case by simp
next
  case (Cons x xs)
  obtain r w1 where b: "body x w = (r, w1)" by (cases "body x w")
  with Cons.prems obtain u where r: "r = Inr u" by (cases r) auto
  from b r have "calls w1 = calls w @ g x" using body [of x w w1] by simp
  moreover from Cons.prems b r have "for_each body xs w1 = (Inr (), w')" by simp
  then have "calls w' = calls w1 @ concat (map g xs)" by (rule Cons.IH)
  ultimately show ?case by simp
qed

lemma for_each_invariant:
  assumes body: "\<And>x w. x \<in> set xs \<Longrightarrow> P w \<Longrightarrow> \<exists>w'. body x w = (Inr (), w') \<and> P w'"
  shows "P w \<Longrightarrow> \<exists>w'. for_each body xs w = (Inr (), w') \<and> P w'"
  using body
proof (induction xs arbitrary: w)
  case Nil
  then show ?case by simp
next
  case (Cons x xs)
  from Cons.prems(2) [of x w] Cons.prems(1)
  obtain w1 where b: "body x w = (Inr (), w1)" and p: "P w1" by auto
  have "\<exists>w'. for_each body xs w1 = (Inr (), w') \<and> P w'"
    using p Cons.prems(2) by (intro Cons.IH) auto
  with b show ?case by simp
qed

lemma for_each_nothing:
  "(\<And>x w. body x w = (Inr (), w)) \<Longrightarrow> for_each body xs w = (Inr (), w)"
  by (induction xs) simp_all

lemma daily_kline_calls:
  assumes "daily_kline tt s i sd ed dr fo ck d w = (Inr (), w')"
  shows "calls w' = calls w @ (if in_range sd ed d then kline_attempts tt ck (s, i, d) else [])"
proof (cases "convert_to_date_object d")
  case (Inl e)
  with assms show ?thesis by (simp add: daily_kline_def)
next
  case (Inr cd)
  show ?thesis
  proof (cases "date_le sd cd \<and> date_le cd ed")
    case False
    with Inr assms show ?thesis by (auto simp: daily_kline_def in_range_def)
  next
    case True
    let ?p = "get_path tt ''klines'' ''daily'' s (Some i)"
    let ?f = "upper s @ ''-'' @ i @ ''-'' @ d @ ''.zip''"
    obtain r w1 where d1: "download_file ?p ?f dr fo w = (r, w1)"
      by (cases "download_file ?p ?f dr fo w")
    have c1: "calls w1 = calls w @ [(?p, ?f)]"
      using download_file_calls [of ?p ?f dr fo w] d1 by simp
    from True Inr have ir: "in_range sd ed d" by (simp add: in_range_def)
    show ?thesis
    proof (cases "ck = 1")
      case False
      with assms True Inr d1 have "w' = w1"
        by (auto simp: daily_kline_def Let_def split: sum.splits)
      with c1 ir False show ?thesis
        by (simp add: kline_attempts_def kline_file_def)
    next
      case ck: True
      let ?g = "upper s @ ''-'' @ i @ ''-'' @ d @ ''.zip.CHECKSUM''"
      from assms True Inr d1 ck have "w' = snd (download_file ?p ?g dr fo w1)"
        by (auto simp: daily_kline_def Let_def split: sum.splits)
      then have "calls w' = calls w1 @ [(?p, ?g)]" by (simp add: download_file_calls)
      with c1 ir ck show ?thesis
        by (simp add: kline_attempts_def kline_file_def kline_checksum_file_def)
    qed
  qed
qed

lemma concat_map_concat:
  "concat (map f (concat xss)) = concat (map (\<lambda>xs. concat (map f xs)) xss)"
  by (induction xss) auto

lemma concat_map_if_filter:
  "concat (map (\<lambda>d. if P d then f d else []) ds) = concat (map f (filter P ds))"
  by (induction ds) auto

lemma download_daily_klines_loops:
  assumes sb: "start_bound start = Inr sd" and eb: "end_bound w end = Inr ed"
  shows "download_daily_klines tt symbols n intervals dates start end fo ck w =
     for_each (\<lambda>s. for_each (\<lambda>i. for_each
       (daily_kline tt s i sd ed
          (if truthy start \<and> truthy end then Some (the start @ '' '' @ the end) else None) fo ck)
       dates) (daily_intervals intervals)) symbols w"
  using sb eb by (simp add: download_daily_klines_def Let_def)

lemma download_daily_klines_calls:
  assumes run: "download_daily_klines tt symbols n intervals dates start end fo ck w = (Inr (), w')"
    and sb: "start_bound start = Inr sd" and eb: "end_bound w end = Inr ed"
  shows "calls w' =
    calls w @ concat (map (kline_attempts tt ck) (kline_triples symbols intervals dates sd ed))"
proof -
  define dr where
    "dr = (if truthy start \<and> truthy end then Some (the start @ '' '' @ the end) else None)"
  have dates: "for_each (daily_kline tt s i sd ed dr fo ck) dates v = (Inr (), v') \<Longrightarrow>
       calls v' = calls v @ concat (map (kline_attempts tt ck)
          (map (\<lambda>d. (s, i, d)) (filter (in_range sd ed) dates)))"
    for s i v v'
    using for_each_calls [of "daily_kline tt s i sd ed dr fo ck"
        "\<lambda>d. if in_range sd ed d then kline_attempts tt ck (s, i, d) else []" dates v v']
    by (simp add: daily_kline_calls concat_map_if_filter comp_def)
  have ivs: "for_each (\<lambda>i. for_each (daily_kline tt s i sd ed dr fo ck) dates) ivs v = (Inr (), v')
     \<Longrightarrow> calls v' = calls v @ concat (map (kline_attempts tt ck)
          (concat (map (\<lambda>i. map (\<lambda>d. (s, i, d)) (filter (in_range sd ed) dates)) ivs)))"
    for s ivs v v'
    using for_each_calls [of "\<lambda>i. for_each (daily_kline tt s i sd ed dr fo ck) dates"
        "\<lambda>i. concat (map (kline_attempts tt ck)
            (map (\<lambda>d. (s, i, d)) (filter (in_range sd ed) dates)))" ivs v v']
    by (simp add: dates concat_map_concat comp_def)
  have syms: "for_each (\<lambda>s. for_each (\<lambda>i. for_each (daily_kline tt s i sd ed dr fo ck) dates) ivs)
        symbols v = (Inr (), v')
     \<Longrightarrow> calls v' = calls v @ concat (map (kline_attempts tt ck)
          (concat (map (\<lambda>s. concat (map (\<lambda>i. map (\<lambda>d. (s, i, d))
             (filter (in_range sd ed) dates)) ivs)) symbols)))"
    for ivs v v'
    using for_each_calls
      [of "\<lambda>s. for_each (\<lambda>i. for_each (daily_kline tt s i sd ed dr fo ck) dates) ivs"
        "\<lambda>s. concat (map (kline_attempts tt ck)
          (concat (map (\<lambda>i. map (\<lambda>d. (s, i, d)) (filter (in_range sd ed) dates)) ivs)))"
        symbols v v']
    by (simp add: ivs concat_map_concat comp_def)
  from run have "for_each (\<lambda>s. for_each (\<lambda>i. for_each (daily_kline tt s i sd ed dr fo ck) dates)
       (daily_intervals intervals)) symbols w = (Inr (), w')"
    by (simp add: download_daily_klines_loops [OF sb eb] dr_def)
  from syms [OF this] show ?thesis by (simp add: kline_triples_def)
qed

lemma count_list_concat_map:
  "count_list (concat (map f xs)) y = sum_list (map (\<lambda>x. count_list (f x) y) xs)"
  by (induction xs) auto

lemma count_list_filter: "count_list (filter P xs) x = (if P x then count_list xs x else 0)"
  by (induction xs) auto

lemma count_list_map_triple:
  "count_list (map (\<lambda>d. (s, i, d)) ds) (s', i', d') =
     (if s = s' \<and> i = i' then count_list ds d' else 0)"
  by (induction ds) auto

lemma count_list_distinct: "distinct xs \<Longrightarrow> count_list xs x = (if x \<in> set xs then 1 else 0)"
  by (induction xs) auto

lemma sum_list_map_if_const:
  "sum_list (map (\<lambda>x. if x = y then (c::nat) else 0) xs) = count_list xs y * c"
  by (induction xs) auto

lemma count_list_kline_triples:
  "count_list (kline_triples symbols intervals dates sd ed) (s, i, d) =
     count_list symbols s * (if i \<in> set intervals \<and> i \<in> set DAILY_INTERVALS then 1 else 0)
       * (if in_range sd ed d then count_list dates d else 0)"
proof -
  have inner: "count_list (concat (map (\<lambda>i'. map (\<lambda>d. (s', i', d))
        (filter (in_range sd ed) dates)) ivs)) (s, i, d)
      = (if s' = s then count_list ivs i * (if in_range sd ed d then count_list dates d else 0)
         else 0)" for s' ivs
    by (simp add: count_list_concat_map count_list_map_triple count_list_filter
          sum_list_map_if_const flip: sum_list_map_if_const cong: if_cong)
  have iv: "count_list (daily_intervals intervals) i =
      (if i \<in> set intervals \<and> i \<in> set DAILY_INTERVALS then 1 else 0)"
    by (simp add: daily_intervals_def count_list_distinct)
  have "count_list (kline_triples symbols intervals dates sd ed) (s, i, d) =
      sum_list (map (\<lambda>s'. count_list (concat (map (\<lambda>i'. map (\<lambda>d. (s', i', d))
         (filter (in_range sd ed) dates)) (daily_intervals intervals))) (s, i, d)) symbols)"
    unfolding kline_triples_def by (rule count_list_concat_map)
  also have "\<dots> = sum_list (map (\<lambda>s'. if s' = s then count_list (daily_intervals intervals) i *
         (if in_range sd ed d then count_list dates d else 0) else 0) symbols)"
    by (simp only: inner)
  also have "\<dots> = count_list symbols s * (count_list (daily_intervals intervals) i *
         (if in_range sd ed d then count_list dates d else 0))"
    by (rule sum_list_map_if_const)
  finally show ?thesis by (simp add: iv)
qed

text \<open>In a world with no file on disk and an archive that has no file, every download
  comes back normally and the world stays of that kind.\<close>

lemma download_file_bare:
  assumes r: "\<forall>url. remote w url = Http_error" and f: "files w = Map.empty"
  shows "\<exists>w'. download_file b f' dr fo w = (Inr (), w') \<and>
     (\<forall>url. remote w' url = Http_error) \<and> files w' = Map.empty"
proof (cases "exists w (save_path_of w b f' fo)")
  case True
  with r f show ?thesis by (simp add: download_file_present)
next
  case nex: False
  show ?thesis
  proof (cases "exists w (local_base fo b)")
    case True
    with nex r f show ?thesis
      by (simp add: download_file_nomk try_download_Http)
  next
    case False
    with nex r f show ?thesis
      by (simp add: download_file_mk try_download_Http)
  qed
qed

lemma daily_kline_bare:
  assumes r: "\<forall>url. remote w url = Http_error" and f: "files w = Map.empty"
    and d: "convert_to_date_object d = Inr c"
  shows "\<exists>w'. daily_kline tt s i sd ed dr fo ck d w = (Inr (), w') \<and>
     (\<forall>url. remote w' url = Http_error) \<and> files w' = Map.empty"
proof (cases "date_le sd c \<and> date_le c ed")
  case False
  with r f d show ?thesis by (auto simp: daily_kline_def)
next
  case True
  let ?p = "get_path tt ''klines'' ''daily'' s (Some i)"
  from download_file_bare [OF r f, of ?p "upper s @ ''-'' @ i @ ''-'' @ d @ ''.zip''" dr fo]
  obtain w1 where 1: "download_file ?p (upper s @ ''-'' @ i @ ''-'' @ d @ ''.zip'') dr fo w = (Inr (), w1)"
    and r1: "\<forall>url. remote w1 url = Http_error" and f1: "files w1 = Map.empty" by blast
  from download_file_bare [OF r1 f1, of ?p "upper s @ ''-'' @ i @ ''-'' @ d @ ''.zip.CHECKSUM''" dr fo]
  obtain w2 where 2: "download_file ?p (upper s @ ''-'' @ i @ ''-'' @ d @ ''.zip.CHECKSUM'') dr fo w1 = (Inr (), w2)"
    and r2: "\<forall>url. remote w2 url = Http_error" and f2: "files w2 = Map.empty" by blast
  show ?thesis
  proof (cases "ck = 1")
    case True
    with \<open>date_le sd c \<and> date_le c ed\<close> d 1 2 r2 f2 show ?thesis
      by (simp add: daily_kline_def Let_def)
  next
    case False
    with \<open>date_le sd c \<and> date_le c ed\<close> d 1 r1 f1 show ?thesis
      by (simp add: daily_kline_def Let_def)
  qed
qed

lemma download_daily_klines_bare:
  assumes r: "\<forall>url. remote w url = Http_error" and f: "files w = Map.empty"
    and sb: "start_bound start = Inr sd" and eb: "end_bound w end = Inr ed"
    and ds: "\<forall>d \<in> set dates. \<exists>c. convert_to_date_object d = Inr c"
  shows "fst (download_daily_klines tt symbols n intervals dates start end fo ck w) = Inr ()"
proof -
  define P where "P v \<longleftrightarrow> (\<forall>url. remote v url = Http_error) \<and> files v = Map.empty" for v :: world
  define dr where
    "dr = (if truthy start \<and> truthy end then Some (the start @ '' '' @ the end) else None)"
  have dl: "P v \<Longrightarrow> \<exists>v'. for_each (daily_kline tt s i sd ed dr fo ck) dates v = (Inr (), v') \<and> P v'"
    for s i v
  proof (rule for_each_invariant)
    fix x v assume "x \<in> set dates" "P v"
    with ds obtain c where "convert_to_date_object x = Inr c" by blast
    with \<open>P v\<close> show "\<exists>w'. daily_kline tt s i sd ed dr fo ck x v = (Inr (), w') \<and> P w'"
      unfolding P_def by (intro daily_kline_bare) auto
  qed
  have il: "P v \<Longrightarrow> \<exists>v'. for_each (\<lambda>i. for_each (daily_kline tt s i sd ed dr fo ck) dates)
       (daily_intervals intervals) v = (Inr (), v') \<and> P v'" for s v
    by (rule for_each_invariant) (rule dl)
  have "P w \<Longrightarrow> \<exists>v'. for_each (\<lambda>s. for_each (\<lambda>i. for_each (daily_kline tt s i sd ed dr fo ck) dates)
       (daily_intervals intervals)) symbols w = (Inr (), v') \<and> P v'"
    by (rule for_each_invariant) (rule il)
  with r f show ?thesis
    by (auto simp: download_daily_klines_loops [OF sb eb] dr_def P_def)
qed

lemma download_file_http:
  assumes "remote w (get_download_url (b @ f)) = Http_error"
  shows "(fst (download_file b f dr fo w) = Inr () \<or>
          fst (download_file b f dr fo w) = Inl FileExistsError \<and>
            opened (snd (download_file b f dr fo w)) = opened w) \<and>
         files (snd (download_file b f dr fo w)) = files w"
proof (cases "exists w (save_path_of w b f fo)")
  case True
  then show ?thesis by (simp add: download_file_present)
next
  case nex: False
  show ?thesis
  proof (cases "exists w (local_base fo b)")
    case True
    with nex assms show ?thesis by (simp add: download_file_nomk try_download_Http)
  next
    case nb: False
    show ?thesis
    proof (cases "get_destination_dir w (local_base fo b) None \<in> dom (files w)")
      case True
      with nex nb show ?thesis by (simp add: download_file_mkfail)
    next
      case False
      with nex nb assms show ?thesis by (simp add: download_file_mk try_download_Http)
    qed
  qed
qed

lemma empty_world_bounds:
  "start_bound (Some ''2021-11-01'') = Inr (2021, 11, 1)"
  "end_bound empty_world (Some ''2021-11-02'') = Inr (2021, 11, 2)"
  by (simp_all add: start_bound_def end_bound_def truthy_def convert_to_date_object_def
        py_int_def digit_of_def mk_date_def days_in_month_def)

lemma convert_examples:
  "convert_to_date_object ''2021-11-01'' = Inr (2021, 11, 1)"
  "convert_to_date_object ''2021-11-02'' = Inr (2021, 11, 2)"
  "convert_to_date_object ''2021-11-05'' = Inr (2021, 11, 5)"
  by (simp_all add: convert_to_date_object_def py_int_def digit_of_def mk_date_def
        days_in_month_def)

text \<open>
  Claim C2. When the remote request for a file raises an HTTP error, \<open>download_file\<close>
  returns normally and no file changes; the only exception such a call can end in is the one
  of making the directory, before any request is made. Hence, with nothing on disk and an
  archive that answers every request with an HTTP error, \<open>download_daily_klines\<close> runs to
  its normal end and has gone through every file of the request, whatever the symbols,
  intervals and (well-formed) dates.
\<close>

theorem http_error_is_not_fatal:
  "(remote w (get_download_url (base_path @ file_name)) = Http_error \<longrightarrow>
      (fst (download_file base_path file_name date_range folder w) = Inr () \<or>
       fst (download_file base_path file_name date_range folder w) = Inl FileExistsError \<and>
         opened (snd (download_file base_path file_name date_range folder w)) = opened w) \<and>
      files (snd (download_file base_path file_name date_range folder w)) = files w)
   \<and> ((\<forall>url. remote w url = Http_error) \<and> files w = Map.empty \<and>
       start_bound start_date = Inr sd \<and> end_bound w end_date = Inr ed \<and>
       (\<forall>d \<in> set dates. \<exists>c. convert_to_date_object d = Inr c) \<longrightarrow>
       fst (download_daily_klines trading_type symbols num_symbols intervals dates
              start_date end_date folder checksum w) = Inr () \<and>
       calls (snd (download_daily_klines trading_type symbols num_symbols intervals dates
              start_date end_date folder checksum w)) =
         calls w @ concat (map (kline_attempts trading_type checksum)
                             (kline_triples symbols intervals dates sd ed)))"
proof (intro conjI impI)
  assume "remote w (get_download_url (base_path @ file_name)) = Http_error"
  from download_file_http [OF this, of date_range folder]
  show "fst (download_file base_path file_name date_range folder w) = Inr () \<or>
       fst (download_file base_path file_name date_range folder w) = Inl FileExistsError \<and>
         opened (snd (download_file base_path file_name date_range folder w)) = opened w"
    and "files (snd (download_file base_path file_name date_range folder w)) = files w"
    by blast+
next
  assume a: "(\<forall>url. remote w url = Http_error) \<and> files w = Map.empty \<and>
       start_bound start_date = Inr sd \<and> end_bound w end_date = Inr ed \<and>
       (\<forall>d \<in> set dates. \<exists>c. convert_to_date_object d = Inr c)"
  let ?r = "download_daily_klines trading_type symbols num_symbols intervals dates
              start_date end_date folder checksum w"
  from a show f: "fst ?r = Inr ()"
    by (intro download_daily_klines_bare) auto
  then have "?r = (Inr (), snd ?r)" by (simp add: prod_eq_iff)
  from download_daily_klines_calls [OF this] a
  show "calls (snd ?r) = calls w @ concat (map (kline_attempts trading_type checksum)
                             (kline_triples symbols intervals dates sd ed))"
    by blast
qed

theorem http_error_is_not_fatal_witness:
  "remote empty_world (get_download_url (''data/spot/daily/klines/BTCUSDT/1m/'' @
       ''BTCUSDT-1m-2021-11-01.zip'')) = Http_error
   \<and> fst (download_file ''data/spot/daily/klines/BTCUSDT/1m/'' ''BTCUSDT-1m-2021-11-01.zip''
            None None empty_world) = Inr ()
   \<and> fst (download_daily_klines ''spot'' [''BTCUSDT'', ''ETHUSDT''] 2 [''1m''] 
            [''2021-11-01'', ''2021-11-02''] (Some ''2021-11-01'') (Some ''2021-11-02'')
            None 0 empty_world) = Inr ()
   \<and> length (calls (snd (download_daily_klines ''spot'' [''BTCUSDT'', ''ETHUSDT''] 2 [''1m''] 
            [''2021-11-01'', ''2021-11-02''] (Some ''2021-11-01'') (Some ''2021-11-02'')
            None 0 empty_world))) = 4
   \<and> length (opened (snd (download_daily_klines ''spot'' [''BTCUSDT'', ''ETHUSDT''] 2 [''1m''] 
            [''2021-11-01'', ''2021-11-02''] (Some ''2021-11-01'') (Some ''2021-11-02'')
            None 0 empty_world))) = 4"
proof -
  have r: "\<forall>url. remote empty_world url = Http_error" and f: "files empty_world = Map.empty"
    by (simp_all add: empty_world_def)
  have d: "\<forall>d \<in> set [''2021-11-01'', ''2021-11-02'']. \<exists>c. convert_to_date_object d = Inr c"
    by (simp add: convert_examples)
  have o: "opened (snd (download_file ''data/spot/daily/klines/BTCUSDT/1m/''
       ''BTCUSDT-1m-2021-11-01.zip'' None None empty_world)) \<noteq> opened empty_world"
    by code_simp
  have t: "length (calls (snd (download_daily_klines ''spot'' [''BTCUSDT'', ''ETHUSDT''] 2 [''1m''] 
            [''2021-11-01'', ''2021-11-02''] (Some ''2021-11-01'') (Some ''2021-11-02'')
            None 0 empty_world))) = 4"
    by code_simp
  have n: "length (opened (snd (download_daily_klines ''spot'' [''BTCUSDT'', ''ETHUSDT''] 2 [''1m''] 
            [''2021-11-01'', ''2021-11-02''] (Some ''2021-11-01'') (Some ''2021-11-02'')
            None 0 empty_world))) = 4"
    by code_simp
  have h: "remote empty_world (get_download_url (''data/spot/daily/klines/BTCUSDT/1m/'' @
       ''BTCUSDT-1m-2021-11-01.zip'')) = Http_error"
    using r by blast
  note T = http_error_is_not_fatal [where w = empty_world
      and base_path = "''data/spot/daily/klines/BTCUSDT/1m/''"
      and file_name = "''BTCUSDT-1m-2021-11-01.zip''" and date_range = None and folder = None
      and start_date = "Some ''2021-11-01''" and sd = "(2021, 11, 1)"
      and end_date = "Some ''2021-11-02''" and ed = "(2021, 11, 2)"
      and dates = "[''2021-11-01'', ''2021-11-02'']" and trading_type = "''spot''"
      and symbols = "[''BTCUSDT'', ''ETHUSDT'']" and num_symbols = 2 and intervals = "[''1m'']"
      and checksum = 0]
  from T h o have a: "fst (download_file ''data/spot/daily/klines/BTCUSDT/1m/''
      ''BTCUSDT-1m-2021-11-01.zip'' None None empty_world) = Inr ()"
    by blast
  from T r f d empty_world_bounds
  have b: "fst (download_daily_klines ''spot'' [''BTCUSDT'', ''ETHUSDT''] 2 [''1m''] 
            [''2021-11-01'', ''2021-11-02''] (Some ''2021-11-01'') (Some ''2021-11-02'')
            None 0 empty_world) = Inr ()"
    by blast
  from h a b t n show ?thesis by blast
qed

text \<open>
  Claim C3, as the code has it. When a call of \<open>download_daily_klines\<close> returns normally,
  the downloads it attempted are, in order, exactly those of the triples (symbol, interval,
  date) with the interval a daily one and the date in range: for each, the file
  \<open>SYMBOL-interval-date.zip\<close> under the path of \<open>get_path\<close> (and its checksum file when
  \<open>checksum\<close> is 1). A triple is taken as often as its symbol and its date are listed, so
  once when they are listed once, and never when its date is out of range or its interval
  is not a daily one.
\<close>

theorem download_daily_klines_attempts:
  assumes "download_daily_klines trading_type symbols num_symbols intervals dates
             start_date end_date folder checksum w = (Inr (), w')"
    and "start_bound start_date = Inr sd" and "end_bound w end_date = Inr ed"
  shows "calls w' = calls w @ concat (map (kline_attempts trading_type checksum)
                                     (kline_triples symbols intervals dates sd ed))
    \<and> (\<forall>s i d. count_list (kline_triples symbols intervals dates sd ed) (s, i, d) =
          count_list symbols s
            * (if i \<in> set intervals \<and> i \<in> set DAILY_INTERVALS then 1 else 0)
            * (if in_range sd ed d then count_list dates d else 0))
    \<and> (\<forall>t. kline_attempts trading_type 0 t = [kline_file trading_type t])"
  using download_daily_klines_calls [OF assms]
  by (simp add: count_list_kline_triples kline_attempts_def)

theorem download_daily_klines_attempts_witness:
  "fst (download_daily_klines ''spot'' [''BTCUSDT''] 1 [''1m'', ''1w'']
          [''2021-11-01'', ''2021-11-05'', ''2021-11-02''] (Some ''2021-11-01'')
          (Some ''2021-11-02'') None 0 empty_world) = Inr ()
   \<and> calls (snd (download_daily_klines ''spot'' [''BTCUSDT''] 1 [''1m'', ''1w'']
          [''2021-11-01'', ''2021-11-05'', ''2021-11-02''] (Some ''2021-11-01'')
          (Some ''2021-11-02'') None 0 empty_world)) =
       [(''data/spot/daily/klines/BTCUSDT/1m/'', ''BTCUSDT-1m-2021-11-01.zip''),
        (''data/spot/daily/klines/BTCUSDT/1m/'', ''BTCUSDT-1m-2021-11-02.zip'')]"
proof -
  let ?r = "download_daily_klines ''spot'' [''BTCUSDT''] 1 [''1m'', ''1w'']
          [''2021-11-01'', ''2021-11-05'', ''2021-11-02''] (Some ''2021-11-01'')
          (Some ''2021-11-02'') None 0 empty_world"
  have f: "fst ?r = Inr ()" by code_simp
  then have run: "?r = (Inr (), snd ?r)" by (simp add: prod_eq_iff)
  have t: "kline_triples [''BTCUSDT''] [''1m'', ''1w'']
       [''2021-11-01'', ''2021-11-05'', ''2021-11-02''] (2021, 11, 1) (2021, 11, 2) =
     [(''BTCUSDT'', ''1m'', ''2021-11-01''), (''BTCUSDT'', ''1m'', ''2021-11-02'')]"
    by code_simp
  have k: "kline_file ''spot'' (''BTCUSDT'', ''1m'', d) =
     (''data/spot/daily/klines/BTCUSDT/1m/'', ''BTCUSDT-1m-'' @ d @ ''.zip'')" for d
    by (simp add: kline_file_def get_path_def upper_def upper_char_def)
  have c: "calls empty_world = []" by (simp add: empty_world_def)
  from download_daily_klines_attempts [OF run empty_world_bounds]
  have "calls (snd ?r) = calls empty_world @ concat (map (kline_attempts ''spot'' 0)
      (kline_triples [''BTCUSDT''] [''1m'', ''1w'']
         [''2021-11-01'', ''2021-11-05'', ''2021-11-02''] (2021, 11, 1) (2021, 11, 2)))"
    by (rule conjunct1)
  then have "calls (snd ?r) =
       [(''data/spot/daily/klines/BTCUSDT/1m/'', ''BTCUSDT-1m-2021-11-01.zip''),
        (''data/spot/daily/klines/BTCUSDT/1m/'', ''BTCUSDT-1m-2021-11-02.zip'')]"
    unfolding t by (simp add: k c kline_attempts_def)
  with f show ?thesis by (rule conjI)
qed

text \<open>
  The claim as the specification words it fails for an interval outside the daily ones:
  the weekly interval is requested for a symbol and a date in range, the call returns
  normally, and nothing was attempted.
\<close>

theorem download_daily_klines_weekly_counterexample:
  "fst (download_daily_klines ''spot'' [''BTCUSDT''] 1 [''1w''] [''2021-11-01'']
          (Some ''2021-11-01'') (Some ''2021-11-02'') None 0 empty_world) = Inr ()
   \<and> in_range (2021, 11, 1) (2021, 11, 2) ''2021-11-01''
   \<and> calls (snd (download_daily_klines ''spot'' [''BTCUSDT''] 1 [''1w''] [''2021-11-01'']
          (Some ''2021-11-01'') (Some ''2021-11-02'') None 0 empty_world)) = []"
  by code_simp

text \<open>
  Claim C9. The intervals that are not daily ones are dropped without a word: a call
  behaves as the call with those intervals removed from the request, and when no requested
  interval is a daily one (and the two bounds are well-formed) it returns normally and
  leaves the world as it was, with no download attempted.
\<close>

theorem download_daily_klines_drops_other_intervals:
  "download_daily_klines trading_type symbols num_symbols intervals dates start_date end_date
      folder checksum w =
     download_daily_klines trading_type symbols num_symbols
       (filter (\<lambda>i. i \<in> set DAILY_INTERVALS) intervals) dates start_date end_date
       folder checksum w
   \<and> (set intervals \<inter> set DAILY_INTERVALS = {} \<longrightarrow>
        start_bound start_date = Inr sd \<longrightarrow> end_bound w end_date = Inr ed \<longrightarrow>
        download_daily_klines trading_type symbols num_symbols intervals dates start_date
          end_date folder checksum w = (Inr (), w))"
proof -
  have "daily_intervals intervals = []" if "set intervals \<inter> set DAILY_INTERVALS = {}"
    using that by (auto simp: daily_intervals_def filter_empty_conv)
  moreover have "daily_intervals (filter (\<lambda>i. i \<in> set DAILY_INTERVALS) intervals) =
      daily_intervals intervals"
    by (simp add: daily_intervals_def)
  ultimately show ?thesis
    by (simp add: download_daily_klines_def Let_def for_each_nothing cong: sum.case_cong)
qed

theorem download_daily_klines_drops_other_intervals_witness:
  "set [''3d'', ''1w'', ''1mo''] \<inter> set DAILY_INTERVALS = {}
   \<and> download_daily_klines ''spot'' [''BTCUSDT'', ''ETHUSDT''] 2 [''3d'', ''1w'', ''1mo'']
       [''2021-11-01'', ''2021-11-02''] (Some ''2021-11-01'') (Some ''2021-11-02'') None 0
       empty_world = (Inr (), empty_world)"
proof -
  have d: "set [''3d'', ''1w'', ''1mo''] \<inter> set DAILY_INTERVALS = {}"
    by (simp add: DAILY_INTERVALS_def)
  from download_daily_klines_drops_other_intervals
    [where trading_type = "''spot''" and symbols = "[''BTCUSDT'', ''ETHUSDT'']"
      and num_symbols = 2 and intervals = "[''3d'', ''1w'', ''1mo'']"
      and dates = "[''2021-11-01'', ''2021-11-02'']" and start_date = "Some ''2021-11-01''"
      and end_date = "Some ''2021-11-02''" and folder = None and checksum = 0
      and w = empty_world and sd = "(2021, 11, 1)" and ed = "(2021, 11, 2)"]
    d empty_world_bounds
  show ?thesis by blast
qed

section \<open>The files of a request\<close>


lemma dict_set_again: "dict_set (dict_set m k v) k v = dict_set m k v"
  by (induction m) auto

lemma for_each_append:
  "for_each body (xs @ ys) st =
     (case for_each body xs st of
        (Inl e, st') \<Rightarrow> (Inl e, st')
      | (Inr u, st') \<Rightarrow> for_each body ys st')"
  by (induction xs arbitrary: st) (auto split: prod.splits sum.splits)

lemma date_step_unbound:
  "type' \<noteq> ''trades'' \<Longrightarrow>
     date_step w type' symbol d (None, fps) = (Inl UnboundLocalError, (None, fps))"
  by (simp add: date_step_def Let_def)

lemma date_step_stale:
  "type' \<noteq> ''trades'' \<Longrightarrow>
     date_step w type' symbol d (Some p, fps) = (Inr (), (Some p, dict_set fps p (symbol, None)))"
  by (simp add: date_step_def Let_def)

lemma dates_loop_unbound:
  "type' \<noteq> ''trades'' \<Longrightarrow> dates \<noteq> [] \<Longrightarrow>
     for_each (date_step w type' symbol) dates (None, fps) = (Inl UnboundLocalError, (None, fps))"
  by (cases dates) (simp_all add: date_step_unbound)

lemma dates_loop_stale_aux:
  "type' \<noteq> ''trades'' \<Longrightarrow>
     for_each (date_step w type' symbol) dates (Some p, dict_set fps p (symbol, None)) =
       (Inr (), (Some p, dict_set fps p (symbol, None)))"
  by (induction dates) (simp_all add: date_step_stale dict_set_again)

lemma dates_loop_stale:
  "type' \<noteq> ''trades'' \<Longrightarrow> dates \<noteq> [] \<Longrightarrow>
     for_each (date_step w type' symbol) dates (Some p, fps) =
       (Inr (), (Some p, dict_set fps p (symbol, None)))"
  by (cases dates) (simp_all add: date_step_stale dates_loop_stale_aux)

lemma symbol_step_unbound:
  "type' \<noteq> ''trades'' \<Longrightarrow> dates \<noteq> [] \<Longrightarrow>
     symbol_step w type' dates (symbol, []) (None, fps) = (Inl UnboundLocalError, (None, fps))"
  by (simp add: symbol_step_def dates_loop_unbound)

lemma symbol_step_stale:
  "type' \<noteq> ''trades'' \<Longrightarrow> dates \<noteq> [] \<Longrightarrow>
     symbol_step w type' dates (symbol, []) (Some p, fps) =
       (Inr (), (Some p, dict_set fps p (symbol, None)))"
  by (simp add: symbol_step_def dates_loop_stale)

lemma symbols_loop_unbound:
  assumes "type' \<noteq> ''trades''" and "dates \<noteq> []" and "\<forall>item \<in> set pre. snd item = []"
  shows "for_each (symbol_step w type' dates) (pre @ (symbol, []) # post) (None, fps) =
     (Inl UnboundLocalError, (None, fps))"
proof (cases pre)
  case Nil
  with assms show ?thesis by (simp add: symbol_step_unbound)
next
  case (Cons item rest)
  with assms(3) obtain s where "item = (s, [])" by (cases item) auto
  with Cons assms show ?thesis by (simp add: symbol_step_unbound)
qed

text \<open>
  Claim C10, as the code has it. For a type other than \<open>trades\<close> and a non-empty range of
  dates, the loop over the dates for a symbol with an empty list of intervals raises no
  \<open>ValueError\<close>: it reads \<open>filepath\<close>. When the variable is unbound it ends in
  \<open>UnboundLocalError\<close>, and so does the call when no earlier symbol has an interval; when an
  earlier symbol has left a path in it, that path is entered again under this symbol, with
  no interval, and the loop over the symbols goes on; when the symbol is the last one, the
  call returns the dictionary with that entry.
\<close>

theorem empty_intervals_read_filepath:
  assumes "type' \<noteq> ''trades''" and "dates \<noteq> []"
  shows "symbol_step w type' dates (symbol, []) (None, filepaths) =
           (Inl UnboundLocalError, (None, filepaths))
    \<and> symbol_step w type' dates (symbol, []) (Some p, filepaths) =
           (Inr (), (Some p, dict_set filepaths p (symbol, None)))
    \<and> (strptime_ymd start_date = Inr sd \<longrightarrow> strptime_ymd end_date = Inr ed \<longrightarrow>
         pd_date_range sd ed = Inr dates \<longrightarrow> (\<forall>item \<in> set pre. snd item = []) \<longrightarrow>
         downloaded_filepaths w type' start_date end_date (pre @ (symbol, []) # post) =
           Inl UnboundLocalError)
    \<and> (for_each (symbol_step w type' dates) pre (None, []) = (Inr (), (Some p, filepaths)) \<longrightarrow>
         for_each (symbol_step w type' dates) (pre @ (symbol, []) # post) (None, []) =
           for_each (symbol_step w type' dates) post
             (Some p, dict_set filepaths p (symbol, None)))
    \<and> (strptime_ymd start_date = Inr sd \<longrightarrow> strptime_ymd end_date = Inr ed \<longrightarrow>
         pd_date_range sd ed = Inr dates \<longrightarrow>
         for_each (symbol_step w type' dates) pre (None, []) = (Inr (), (Some p, filepaths)) \<longrightarrow>
         downloaded_filepaths w type' start_date end_date (pre @ [(symbol, [])]) =
           Inr (dict_set filepaths p (symbol, None)))"
proof (intro conjI impI)
  show "symbol_step w type' dates (symbol, []) (None, filepaths) =
      (Inl UnboundLocalError, (None, filepaths))"
    using assms by (rule symbol_step_unbound)
  show "symbol_step w type' dates (symbol, []) (Some p, filepaths) =
      (Inr (), (Some p, dict_set filepaths p (symbol, None)))"
    using assms by (rule symbol_step_stale)
next
  assume "strptime_ymd start_date = Inr sd" "strptime_ymd end_date = Inr ed"
    "pd_date_range sd ed = Inr dates" "\<forall>item \<in> set pre. snd item = []"
  then show "downloaded_filepaths w type' start_date end_date (pre @ (symbol, []) # post) =
      Inl UnboundLocalError"
    using assms by (simp add: downloaded_filepaths_def symbols_loop_unbound)
next
  assume "for_each (symbol_step w type' dates) pre (None, []) = (Inr (), (Some p, filepaths))"
  then show "for_each (symbol_step w type' dates) (pre @ (symbol, []) # post) (None, []) =
      for_each (symbol_step w type' dates) post (Some p, dict_set filepaths p (symbol, None))"
    using assms by (simp add: for_each_append symbol_step_stale)
next
  assume "strptime_ymd start_date = Inr sd" "strptime_ymd end_date = Inr ed"
    "pd_date_range sd ed = Inr dates"
    "for_each (symbol_step w type' dates) pre (None, []) = (Inr (), (Some p, filepaths))"
  then show "downloaded_filepaths w type' start_date end_date (pre @ [(symbol, [])]) =
      Inr (dict_set filepaths p (symbol, None))"
    using assms by (simp add: downloaded_filepaths_def for_each_append symbol_step_stale)
qed

lemma days_from_unfold:
  "days_from n dt = (if n = 0 then [] else dt # days_from (n - 1) (next_day dt))"
  by (cases n) simp_all

lemma strptime_examples:
  "strptime_ymd ''2021-11-02'' = Inr (2021, 11, 2)"
  "strptime_ymd ''2021-11-03'' = Inr (2021, 11, 3)"
  by (simp_all add: strptime_ymd_def py_int_def digit_of_def mk_date_def days_in_month_def)

lemma pd_date_range_example:
  "pd_date_range (2021, 11, 2) (2021, 11, 3) = Inr [(2021, 11, 2), (2021, 11, 3)]"
  by (simp add: pd_date_range_def in_timestamp_bounds_def day_number_def days_before_month_def
        days_in_month_def is_leap_def next_day_def days_from_unfold)

lemma pd_date_range_backwards:
  "pd_date_range (2021, 11, 3) (2021, 11, 2) = Inr []"
  by (simp add: pd_date_range_def in_timestamp_bounds_def day_number_def days_before_month_def
        days_in_month_def is_leap_def next_day_def days_from_unfold)

lemma strftime_examples:
  "strftime_ymd (2021, 11, 2) = ''2021-11-02''"
  "strftime_ymd (2021, 11, 3) = ''2021-11-03''"
  by (simp_all add: strftime_ymd_def digit_char_def)

lemma empty_world_cwd: "cwd empty_world = ''/app''"
  by (simp add: empty_world_def)

theorem empty_intervals_read_filepath_witness:
  "''klines'' \<noteq> ''trades''
   \<and> pd_date_range (2021, 11, 2) (2021, 11, 3) = Inr [(2021, 11, 2), (2021, 11, 3)]
   \<and> downloaded_filepaths empty_world ''klines'' ''2021-11-02'' ''2021-11-03''
        [(''BTCUSDT'', []), (''ETHUSDT'', [''1m''])] = Inl UnboundLocalError
   \<and> downloaded_filepaths empty_world ''klines'' ''2021-11-02'' ''2021-11-03''
        [(''ETHUSDT'', [''1m'']), (''BTCUSDT'', [])] =
       Inr [(''/app/test_data/binance/data/spot/daily/klines/ETHUSDT/1m/ETHUSDT-1m-2021-11-02.zip'',
               ''ETHUSDT'', Some ''1m''),
            (''/app/test_data/binance/data/spot/daily/klines/ETHUSDT/1m/ETHUSDT-1m-2021-11-03.zip'',
               ''BTCUSDT'', None)]"
proof -
  have t: "''klines'' \<noteq> ''trades''" by simp
  have n: "[(2021, 11, 2), (2021, 11, 3)] \<noteq> ([] :: date list)" by simp
  note T = empty_intervals_read_filepath [OF t n, where w = empty_world
      and symbol = "''BTCUSDT''" and start_date = "''2021-11-02''" and end_date = "''2021-11-03''"
      and sd = "(2021, 11, 2)" and ed = "(2021, 11, 3)"]
  from T [where pre = "[]" and post = "[(''ETHUSDT'', [''1m''])]"]
  have u: "downloaded_filepaths empty_world ''klines'' ''2021-11-02'' ''2021-11-03''
        [(''BTCUSDT'', []), (''ETHUSDT'', [''1m''])] = Inl UnboundLocalError"
    using strptime_examples pd_date_range_example by simp
  let ?p2 = "''/app/test_data/binance/data/spot/daily/klines/ETHUSDT/1m/ETHUSDT-1m-2021-11-02.zip''"
  let ?p3 = "''/app/test_data/binance/data/spot/daily/klines/ETHUSDT/1m/ETHUSDT-1m-2021-11-03.zip''"
  have pre: "for_each (symbol_step empty_world ''klines'' [(2021, 11, 2), (2021, 11, 3)])
      [(''ETHUSDT'', [''1m''])] (None, []) =
      (Inr (), (Some ?p3, [(?p2, ''ETHUSDT'', Some ''1m''), (?p3, ''ETHUSDT'', Some ''1m'')]))"
    by (simp add: symbol_step_def interval_date_step_def strftime_examples file_format_def
          empty_world_cwd Let_def)
  from T [where pre = "[(''ETHUSDT'', [''1m''])]" and post = "[]" and p = ?p3
      and filepaths = "[(?p2, ''ETHUSDT'', Some ''1m''), (?p3, ''ETHUSDT'', Some ''1m'')]"] pre
  have st: "downloaded_filepaths empty_world ''klines'' ''2021-11-02'' ''2021-11-03''
        [(''ETHUSDT'', [''1m'']), (''BTCUSDT'', [])] =
       Inr [(?p2, ''ETHUSDT'', Some ''1m''), (?p3, ''BTCUSDT'', None)]"
    using strptime_examples pd_date_range_example by simp
  from t pd_date_range_example u st show ?thesis by blast
qed

text \<open>
  The claim as the specification words it, for every call in which some symbol has no
  interval and the type is not \<open>trades\<close>, fails twice: with an unrecognised type and an
  earlier symbol that has an interval the call ends in the \<open>ValueError\<close> of that symbol, and
  with an end date before the start date there is no date to go through and the call
  returns the empty dictionary.
\<close>

theorem empty_intervals_counterexample:
  "''foo'' \<noteq> ''trades''
   \<and> downloaded_filepaths empty_world ''foo'' ''2021-11-02'' ''2021-11-03''
        [(''ETHUSDT'', [''1m'']), (''BTCUSDT'', [])] = Inl ValueError
   \<and> ''klines'' \<noteq> ''trades''
   \<and> downloaded_filepaths empty_world ''klines'' ''2021-11-03'' ''2021-11-02''
        [(''BTCUSDT'', [])] = Inr []"
  by (simp add: downloaded_filepaths_def strptime_examples pd_date_range_example
        pd_date_range_backwards symbol_step_def interval_date_step_def Let_def)

section \<open>Assembling the data sets\<close>


lemma bar_times:
  "map bar_time (map (\<lambda>g. agg_mean_sum_sum g symb) (groupby_time df)) = sort (remdups (map time df))"
  by (simp add: groupby_time_def agg_mean_sum_sum_def comp_def)

lemma filter_floored:
  "filter (\<lambda>r. time r = k) (map (\<lambda>r. r\<lparr>time := (time r div 10000) * 10000\<rparr>) df) =
     map (\<lambda>r. r\<lparr>time := (time r div 10000) * 10000\<rparr>) (filter (\<lambda>r. (time r div 10000) * 10000 = k) df)"
  by (induction df) auto

lemma length_filter_eq_distinct:
  "distinct xs \<Longrightarrow> length (filter (\<lambda>t. t = k) xs) = (if k \<in> set xs then 1 else 0)"
  by (induction xs) auto

lemma bucket_of:
  assumes "(m::int) mod 10000 = 0"
  shows "(m \<le> t \<and> t < m + 10000) = (m = (t div 10000) * 10000)"
proof
  assume a: "m \<le> t \<and> t < m + 10000"
  from assms have m: "m = 10000 * (m div 10000)" by (simp add: mod_eq_0_iff_dvd)
  have "t = 10000 * (m div 10000) + (t - m)" using m by linarith
  moreover from a have "0 \<le> t - m" "t - m < 10000" by linarith+
  ultimately have "t div 10000 = m div 10000" by (rule int_div_pos_eq)
  with m show "m = (t div 10000) * 10000" by linarith
next
  assume e: "m = (t div 10000) * 10000"
  have "t = (t div 10000) * 10000 + t mod 10000" by simp
  moreover have "0 \<le> t mod 10000" "t mod 10000 < 10000" by simp_all
  ultimately show "m \<le> t \<and> t < m + 10000" using e by linarith
qed

text \<open>
  Claim C4. \<open>trade_data_collation\<close> returns one row for each ten-second bucket that holds
  a trade of the file (of its first \<open>nrows\<close> rows when \<open>limit_rows\<close> is set). The time of a
  row is a multiple of 10000, the floor of the time of a trade; its price is the arithmetic
  mean of the prices of the trades whose time floors to it, its \<open>qty\<close> and \<open>quoteQty\<close> are the
  sums of theirs; the rows come in increasing order of time, no two with the same time;
  and every trade lies in the ten seconds of exactly one row. Prices and quantities are
  real numbers in the model.
\<close>

theorem trade_data_collation_buckets:
  assumes "trade_csv w filename = Inr rows"
  shows "\<exists>out. trade_data_collation w filename symb limit_rows nrows = Inr out \<and>
     sorted (map bar_time out) \<and> distinct (map bar_time out) \<and>
     (\<forall>b \<in> set out.
        bar_time b mod 10000 = 0 \<and> bar_symbol b = symb \<and>
        (\<exists>r \<in> set (read_rows limit_rows nrows rows). bar_time b = (time r div 10000) * 10000) \<and>
        bar_price b =
          sum_list (map price (filter (\<lambda>r. (time r div 10000) * 10000 = bar_time b)
                                 (read_rows limit_rows nrows rows)))
          / real (length (filter (\<lambda>r. (time r div 10000) * 10000 = bar_time b)
                            (read_rows limit_rows nrows rows))) \<and>
        bar_qty b =
          sum_list (map qty (filter (\<lambda>r. (time r div 10000) * 10000 = bar_time b)
                               (read_rows limit_rows nrows rows))) \<and>
        bar_quoteQty b =
          sum_list (map quoteQty (filter (\<lambda>r. (time r div 10000) * 10000 = bar_time b)
                                    (read_rows limit_rows nrows rows)))) \<and>
     (\<forall>r \<in> set (read_rows limit_rows nrows rows).
        length (filter (\<lambda>b. bar_time b \<le> time r \<and> time r < bar_time b + 10000) out) = 1)"
proof -
  define df where "df = read_rows limit_rows nrows rows"
  define fl where "fl = (\<lambda>r::trade. r\<lparr>time := (time r div 10000) * 10000\<rparr>)"
  define out where "out = map (\<lambda>g. agg_mean_sum_sum g symb) (groupby_time (map fl df))"
  have res: "trade_data_collation w filename symb limit_rows nrows = Inr out"
    using assms by (simp add: trade_data_collation_def Let_def out_def df_def fl_def)
  have times: "map bar_time out = sort (remdups (map (\<lambda>r. (time r div 10000) * 10000) df))"
    unfolding out_def bar_times by (simp add: fl_def comp_def)
  have srt: "sorted (map bar_time out)" and dst: "distinct (map bar_time out)"
    unfolding times by simp_all
  have keys: "set (map bar_time out) = (\<lambda>r. (time r div 10000) * 10000) ` set df"
    unfolding times by simp
  have each: "bar_time b mod 10000 = 0 \<and> bar_symbol b = symb \<and>
        (\<exists>r \<in> set df. bar_time b = (time r div 10000) * 10000) \<and>
        bar_price b = sum_list (map price (filter (\<lambda>r. (time r div 10000) * 10000 = bar_time b) df))
          / real (length (filter (\<lambda>r. (time r div 10000) * 10000 = bar_time b) df)) \<and>
        bar_qty b = sum_list (map qty (filter (\<lambda>r. (time r div 10000) * 10000 = bar_time b) df)) \<and>
        bar_quoteQty b =
          sum_list (map quoteQty (filter (\<lambda>r. (time r div 10000) * 10000 = bar_time b) df))"
    if "b \<in> set out" for b
  proof -
    from that obtain k where k: "k \<in> set (sort (remdups (map time (map fl df))))"
      and b: "b = agg_mean_sum_sum (k, filter (\<lambda>r. time r = k) (map fl df)) symb"
      by (auto simp: out_def groupby_time_def)
    from k obtain r where r: "r \<in> set df" "k = (time r div 10000) * 10000"
      by (auto simp: fl_def)
    have g: "filter (\<lambda>r. time r = k) (map fl df) =
        map fl (filter (\<lambda>r. (time r div 10000) * 10000 = k) df)"
      unfolding fl_def by (rule filter_floored)
    have bt: "bar_time b = k" by (simp add: b agg_mean_sum_sum_def)
    have gp: "map price (filter (\<lambda>r. time r = k) (map fl df)) =
        map price (filter (\<lambda>r. (time r div 10000) * 10000 = k) df)"
      and gq: "map qty (filter (\<lambda>r. time r = k) (map fl df)) =
        map qty (filter (\<lambda>r. (time r div 10000) * 10000 = k) df)"
      and gqq: "map quoteQty (filter (\<lambda>r. time r = k) (map fl df)) =
        map quoteQty (filter (\<lambda>r. (time r div 10000) * 10000 = k) df)"
      unfolding g by (simp_all add: fl_def)
    have gl: "length (map price (filter (\<lambda>r. time r = k) (map fl df))) =
        length (filter (\<lambda>r. (time r div 10000) * 10000 = k) df)"
      unfolding gp by simp
    have "bar_price b = sum_list (map price (filter (\<lambda>r. time r = k) (map fl df)))
        / real (length (map price (filter (\<lambda>r. time r = k) (map fl df))))"
      by (simp add: b agg_mean_sum_sum_def mean_def)
    then have p: "bar_price b = sum_list (map price (filter (\<lambda>r. (time r div 10000) * 10000 = k) df))
          / real (length (filter (\<lambda>r. (time r div 10000) * 10000 = k) df))"
      unfolding gl unfolding gp .
    have q: "bar_qty b = sum_list (map qty (filter (\<lambda>r. (time r div 10000) * 10000 = k) df))"
      unfolding gq [symmetric] by (simp add: b agg_mean_sum_sum_def)
    have qq: "bar_quoteQty b =
        sum_list (map quoteQty (filter (\<lambda>r. (time r div 10000) * 10000 = k) df))"
      unfolding gqq [symmetric] by (simp add: b agg_mean_sum_sum_def)
    have m: "k mod 10000 = 0" by (simp add: r(2))
    have sy: "bar_symbol b = symb" by (simp add: b agg_mean_sum_sum_def)
    from r have ex: "\<exists>r \<in> set df. k = (time r div 10000) * 10000" by blast
    from m sy ex p q qq show ?thesis unfolding bt by blast
  qed
  have one: "length (filter (\<lambda>b. bar_time b \<le> time r \<and> time r < bar_time b + 10000) out) = 1"
    if "r \<in> set df" for r
  proof -
    have "filter (\<lambda>b. bar_time b \<le> time r \<and> time r < bar_time b + 10000) out =
        filter (\<lambda>b. bar_time b = (time r div 10000) * 10000) out"
    proof (rule filter_cong [OF refl])
      fix b assume "b \<in> set out"
      then have "bar_time b mod 10000 = 0" using each by blast
      then show "(bar_time b \<le> time r \<and> time r < bar_time b + 10000) =
          (bar_time b = (time r div 10000) * 10000)"
        by (rule bucket_of)
    qed
    then have "length (filter (\<lambda>b. bar_time b \<le> time r \<and> time r < bar_time b + 10000) out) =
        length (filter (\<lambda>t. t = (time r div 10000) * 10000) (map bar_time out))"
      by (simp add: filter_map comp_def)
    also have "\<dots> = (if (time r div 10000) * 10000 \<in> set (map bar_time out) then 1 else 0)"
      by (rule length_filter_eq_distinct [OF dst])
    also have "\<dots> = 1"
      unfolding keys using that by (simp add: image_iff) blast
    finally show ?thesis .
  qed
  from each have each': "\<forall>b \<in> set out. bar_time b mod 10000 = 0 \<and> bar_symbol b = symb \<and>
        (\<exists>r \<in> set df. bar_time b = (time r div 10000) * 10000) \<and>
        bar_price b = sum_list (map price (filter (\<lambda>r. (time r div 10000) * 10000 = bar_time b) df))
          / real (length (filter (\<lambda>r. (time r div 10000) * 10000 = bar_time b) df)) \<and>
        bar_qty b = sum_list (map qty (filter (\<lambda>r. (time r div 10000) * 10000 = bar_time b) df)) \<and>
        bar_quoteQty b =
          sum_list (map quoteQty (filter (\<lambda>r. (time r div 10000) * 10000 = bar_time b) df))"
    by (rule ballI)
  from one have one': "\<forall>r \<in> set df.
      length (filter (\<lambda>b. bar_time b \<le> time r \<and> time r < bar_time b + 10000) out) = 1"
    by (rule ballI)
  from res srt dst each' one' show ?thesis
    unfolding df_def by (intro exI [of _ out] conjI)
qed


lemma market_world_trades:
  "trade_csv market_world
     ''/app/test_data/binance/data/spot/daily/trades/BTCUSDT/BTCUSDT-trades-2021-11-02.zip'' =
   Inr [example_trade 25000 8 2, example_trade 12000 4 3, example_trade 19999 6 5]"
  "trade_csv market_world
     ''/app/test_data/binance/data/spot/daily/trades/BTCUSDT/BTCUSDT-trades-2021-11-03.zip'' =
   Inr [example_trade 3000 9 2]"
  by (simp_all add: market_world_def)

theorem trade_data_collation_buckets_witness:
  "trade_csv market_world
     ''/app/test_data/binance/data/spot/daily/trades/BTCUSDT/BTCUSDT-trades-2021-11-02.zip'' =
     Inr [example_trade 25000 8 2, example_trade 12000 4 3, example_trade 19999 6 5]
   \<and> (\<exists>out. trade_data_collation market_world
          ''/app/test_data/binance/data/spot/daily/trades/BTCUSDT/BTCUSDT-trades-2021-11-02.zip''
          ''BTCUSDT'' False 50000 = Inr out \<and> sorted (map bar_time out) \<and> length out = 2)
   \<and> trade_data_collation market_world
          ''/app/test_data/binance/data/spot/daily/trades/BTCUSDT/BTCUSDT-trades-2021-11-02.zip''
          ''BTCUSDT'' False 50000 =
       Inr [\<lparr>bar_time = 10000, bar_price = 5, bar_qty = 8, bar_quoteQty = 42,
              bar_symbol = ''BTCUSDT''\<rparr>,
            \<lparr>bar_time = 20000, bar_price = 8, bar_qty = 2, bar_quoteQty = 16,
              bar_symbol = ''BTCUSDT''\<rparr>]"
proof -
  let ?f = "''/app/test_data/binance/data/spot/daily/trades/BTCUSDT/BTCUSDT-trades-2021-11-02.zip''"
  have ev: "trade_data_collation market_world ?f ''BTCUSDT'' False 50000 =
       Inr [\<lparr>bar_time = 10000, bar_price = 5, bar_qty = 8, bar_quoteQty = 42,
              bar_symbol = ''BTCUSDT''\<rparr>,
            \<lparr>bar_time = 20000, bar_price = 8, bar_qty = 2, bar_quoteQty = 16,
              bar_symbol = ''BTCUSDT''\<rparr>]"
    by (simp add: trade_data_collation_def market_world_trades example_trade_def read_rows_def
          groupby_time_def agg_mean_sum_sum_def mean_def Let_def)
  from trade_data_collation_buckets [OF market_world_trades(1), of "''BTCUSDT''" False 50000]
  obtain out where o: "trade_data_collation market_world ?f ''BTCUSDT'' False 50000 = Inr out"
    and s: "sorted (map bar_time out)" by blast
  from o ev have "length out = 2" by auto
  with o s have "\<exists>out. trade_data_collation market_world ?f ''BTCUSDT'' False 50000 = Inr out \<and>
      sorted (map bar_time out) \<and> length out = 2" by blast
  with market_world_trades(1) ev show ?thesis by blast
qed





lemma market_world_cwd: "cwd market_world = ''/app''"
  by (simp add: market_world_def empty_world_def)

lemma kline_files_example:
  "downloaded_filepaths market_world ''klines'' ''2021-11-02'' ''2021-11-03''
     [(''BTCUSDT'', [''1m''])] =
   Inr [(''/app/test_data/binance/data/spot/daily/klines/BTCUSDT/1m/BTCUSDT-1m-2021-11-02.zip'',
           ''BTCUSDT'', Some ''1m''),
        (''/app/test_data/binance/data/spot/daily/klines/BTCUSDT/1m/BTCUSDT-1m-2021-11-03.zip'',
           ''BTCUSDT'', Some ''1m'')]"
  by (simp add: downloaded_filepaths_def strptime_examples pd_date_range_example
        symbol_step_def interval_date_step_def strftime_examples file_format_def
        market_world_cwd Let_def)

lemma trade_files_example:
  "downloaded_filepaths market_world ''trades'' ''2021-11-02'' ''2021-11-03''
     [(''BTCUSDT'', [])] =
   Inr [(''/app/test_data/binance/data/spot/daily/trades/BTCUSDT/BTCUSDT-trades-2021-11-02.zip'',
           ''BTCUSDT'', None),
        (''/app/test_data/binance/data/spot/daily/trades/BTCUSDT/BTCUSDT-trades-2021-11-03.zip'',
           ''BTCUSDT'', None)]"
  by (simp add: downloaded_filepaths_def strptime_examples pd_date_range_example
        symbol_step_def date_step_def strftime_examples file_format_def
        market_world_cwd Let_def)

lemma market_world_klines:
  "kline_csv market_world
     ''/app/test_data/binance/data/spot/daily/klines/BTCUSDT/1m/BTCUSDT-1m-2021-11-02.zip'' =
   Inr [example_kline 300 30, example_kline 400 40]"
  "kline_csv market_world
     ''/app/test_data/binance/data/spot/daily/klines/BTCUSDT/1m/BTCUSDT-1m-2021-11-03.zip'' =
   Inr [example_kline 100 10, example_kline 200 20]"
  by (simp_all add: market_world_def)

lemma kline_data_example:
  "get_binance_kline_data market_world ''2021-11-02'' ''2021-11-03'' [(''BTCUSDT'', [''1m''])] =
   Inr [kline_row.extend (example_kline 100 10)
          \<lparr>kline_symbol = ''BTCUSDT'', kline_interval = Some ''1m'', row_label = 0\<rparr>,
        kline_row.extend (example_kline 200 20)
          \<lparr>kline_symbol = ''BTCUSDT'', kline_interval = Some ''1m'', row_label = 1\<rparr>,
        kline_row.extend (example_kline 300 30)
          \<lparr>kline_symbol = ''BTCUSDT'', kline_interval = Some ''1m'', row_label = 0\<rparr>,
        kline_row.extend (example_kline 400 40)
          \<lparr>kline_symbol = ''BTCUSDT'', kline_interval = Some ''1m'', row_label = 1\<rparr>]"
  by (simp add: get_binance_kline_data_def kline_files_example market_world_klines
        example_kline_def kline_row.extend_def enumerate_eq_zip upt_rec)

lemma trade_data_example:
  "get_binance_trade_data market_world ''2021-11-02'' ''2021-11-03'' [''BTCUSDT''] =
   Inr [\<lparr>bar_time = 0, bar_price = 9, bar_qty = 2, bar_quoteQty = 18, bar_symbol = ''BTCUSDT''\<rparr>,
        \<lparr>bar_time = 10000, bar_price = 5, bar_qty = 8, bar_quoteQty = 42,
           bar_symbol = ''BTCUSDT''\<rparr>,
        \<lparr>bar_time = 20000, bar_price = 8, bar_qty = 2, bar_quoteQty = 16,
           bar_symbol = ''BTCUSDT''\<rparr>]"
  by (simp add: get_binance_trade_data_def trade_files_example market_world_trades
        trade_data_collation_def example_trade_def read_rows_def
        groupby_time_def agg_mean_sum_sum_def mean_def Let_def)

text \<open>
  Claim C5. Whenever \<open>get_binance_kline_data\<close> returns a table, its rows are in
  non-decreasing order of the close time, and they are the rows read from the files of the
  request, whatever the order in which the files were read; likewise
  \<open>get_binance_trade_data\<close> and the time of its rows.
\<close>

theorem assembled_tables_are_time_ordered:
  "(get_binance_kline_data w start_date end_date symbol_data_required = Inr rows \<longrightarrow>
      sorted (map close_time rows) \<and>
      (\<exists>filepaths kline_data.
         downloaded_filepaths w ''klines'' start_date end_date symbol_data_required = Inr filepaths \<and>
         read_klines w filepaths [] = Inr kline_data \<and> mset rows = mset kline_data))
   \<and> (get_binance_trade_data w start_date end_date symbols = Inr bars \<longrightarrow>
      sorted (map bar_time bars) \<and>
      (\<exists>filepaths trade_data.
         downloaded_filepaths w ''trades'' start_date end_date
           (fold (\<lambda>symb d. dict_set d symb []) symbols []) = Inr filepaths \<and>
         read_trades w filepaths [] = Inr trade_data \<and> mset bars = mset trade_data))"
  by (auto simp: get_binance_kline_data_def get_binance_trade_data_def Let_def
        split: sum.splits if_splits)

theorem assembled_tables_are_time_ordered_witness:
  "get_binance_kline_data market_world ''2021-11-02'' ''2021-11-03'' [(''BTCUSDT'', [''1m''])] =
     Inr [kline_row.extend (example_kline 100 10)
            \<lparr>kline_symbol = ''BTCUSDT'', kline_interval = Some ''1m'', row_label = 0\<rparr>,
          kline_row.extend (example_kline 200 20)
            \<lparr>kline_symbol = ''BTCUSDT'', kline_interval = Some ''1m'', row_label = 1\<rparr>,
          kline_row.extend (example_kline 300 30)
            \<lparr>kline_symbol = ''BTCUSDT'', kline_interval = Some ''1m'', row_label = 0\<rparr>,
          kline_row.extend (example_kline 400 40)
            \<lparr>kline_symbol = ''BTCUSDT'', kline_interval = Some ''1m'', row_label = 1\<rparr>]
   \<and> sorted (map close_time
        [kline_row.extend (example_kline 100 10)
            \<lparr>kline_symbol = ''BTCUSDT'', kline_interval = Some ''1m'', row_label = 0\<rparr>,
          kline_row.extend (example_kline 200 20)
            \<lparr>kline_symbol = ''BTCUSDT'', kline_interval = Some ''1m'', row_label = 1\<rparr>,
          kline_row.extend (example_kline 300 30)
            \<lparr>kline_symbol = ''BTCUSDT'', kline_interval = Some ''1m'', row_label = 0\<rparr>,
          kline_row.extend (example_kline 400 40)
            \<lparr>kline_symbol = ''BTCUSDT'', kline_interval = Some ''1m'', row_label = 1\<rparr>])
   \<and> get_binance_trade_data market_world ''2021-11-02'' ''2021-11-03'' [''BTCUSDT''] =
     Inr [\<lparr>bar_time = 0, bar_price = 9, bar_qty = 2, bar_quoteQty = 18, bar_symbol = ''BTCUSDT''\<rparr>,
          \<lparr>bar_time = 10000, bar_price = 5, bar_qty = 8, bar_quoteQty = 42,
             bar_symbol = ''BTCUSDT''\<rparr>,
          \<lparr>bar_time = 20000, bar_price = 8, bar_qty = 2, bar_quoteQty = 16,
             bar_symbol = ''BTCUSDT''\<rparr>]
   \<and> sorted (map bar_time
        [\<lparr>bar_time = 0, bar_price = 9, bar_qty = 2, bar_quoteQty = 18, bar_symbol = ''BTCUSDT''\<rparr>,
          \<lparr>bar_time = 10000, bar_price = 5, bar_qty = 8, bar_quoteQty = 42,
             bar_symbol = ''BTCUSDT''\<rparr>,
          \<lparr>bar_time = 20000, bar_price = 8, bar_qty = 2, bar_quoteQty = 16,
             bar_symbol = ''BTCUSDT''\<rparr>])"
proof -
  note T = assembled_tables_are_time_ordered [where w = market_world
      and start_date = "''2021-11-02''" and end_date = "''2021-11-03''"
      and symbol_data_required = "[(''BTCUSDT'', [''1m''])]" and symbols = "[''BTCUSDT'']"]
  from T kline_data_example have k: "sorted (map close_time
        [kline_row.extend (example_kline 100 10)
            \<lparr>kline_symbol = ''BTCUSDT'', kline_interval = Some ''1m'', row_label = 0\<rparr>,
          kline_row.extend (example_kline 200 20)
            \<lparr>kline_symbol = ''BTCUSDT'', kline_interval = Some ''1m'', row_label = 1\<rparr>,
          kline_row.extend (example_kline 300 30)
            \<lparr>kline_symbol = ''BTCUSDT'', kline_interval = Some ''1m'', row_label = 0\<rparr>,
          kline_row.extend (example_kline 400 40)
            \<lparr>kline_symbol = ''BTCUSDT'', kline_interval = Some ''1m'', row_label = 1\<rparr>])"
    by blast
  from T trade_data_example have t: "sorted (map bar_time
        [\<lparr>bar_time = 0, bar_price = 9, bar_qty = 2, bar_quoteQty = 18, bar_symbol = ''BTCUSDT''\<rparr>,
          \<lparr>bar_time = 10000, bar_price = 5, bar_qty = 8, bar_quoteQty = 42,
             bar_symbol = ''BTCUSDT''\<rparr>,
          \<lparr>bar_time = 20000, bar_price = 8, bar_qty = 2, bar_quoteQty = 16,
             bar_symbol = ''BTCUSDT''\<rparr>])"
    by blast
  from kline_data_example k trade_data_example t show ?thesis by blast
qed

section \<open>The cointegration plot\<close>


lemma map_of_dict_set:
  "map_of (dict_set m k v) k' = (if k' = k then Some v else map_of m k')"
  by (induction m) auto

lemma map_of_present: "map_of m c = Some p \<Longrightarrow> c \<in> fst ` set m"
  by (auto dest!: map_of_SomeD intro: rev_image_eqI)

lemma np_index_nat: "k < length xs \<Longrightarrow> np_index xs (int k) = Inr (xs ! k)"
  by (simp add: np_index_def Let_def)

lemma evec_component_nat:
  "np_index (evec (self_test_result self)) e = Inr row \<Longrightarrow> k < length row \<Longrightarrow>
     evec_component self e (int k) = Inr (row ! k)"
  by (simp add: evec_component_def np_index_nat)

lemma setitem_same_labels:
  assumes "map fst s = frame_index df"
  shows "setitem df c s = Inr (df\<lparr>frame_columns := dict_set (frame_columns df) c (map snd s)\<rparr>)"
proof (cases "s = []")
  case True
  with assms have "frame_index df = []" by simp
  with True show ?thesis by (simp add: setitem_def)
next
  case False
  with assms have "frame_index df \<noteq> []" by auto
  with assms show ?thesis by (simp add: setitem_def)
qed

lemma setitem_empty_frame:
  "setitem \<lparr>frame_index = [], frame_columns = []\<rparr> c s =
     Inr \<lparr>frame_index = map fst s, frame_columns = [(c, map snd s)]\<rparr>"
  by (cases "s = []") (simp_all add: setitem_def Let_def)

lemma series_add_same_labels:
  assumes "length p = length data" and "map row_label data = labels"
  shows "series_add (zip labels (map Some p)) (scaled_close_series data c) =
     zip labels (map Some (map (\<lambda>k. p ! k + close (data ! k) * c) [0..<length labels]))"
proof -
  have l: "length labels = length data" using assms(2) by auto
  have "map fst (zip labels (map Some p)) = map fst (scaled_close_series data c)"
    using assms l by (simp add: scaled_close_series_def comp_def)
  then have "series_add (zip labels (map Some p)) (scaled_close_series data c) =
      map2 (\<lambda>r s. (fst r, nan_add (snd r) (snd s))) (zip labels (map Some p))
        (scaled_close_series data c)"
    by (simp add: series_add_def)
  also have "\<dots> = zip labels (map Some (map (\<lambda>k. p ! k + close (data ! k) * c) [0..<length labels]))"
  proof (rule nth_equalityI)
    show "length (map2 (\<lambda>r s. (fst r, nan_add (snd r) (snd s))) (zip labels (map Some p))
        (scaled_close_series data c)) =
      length (zip labels (map Some (map (\<lambda>k. p ! k + close (data ! k) * c) [0..<length labels])))"
      using assms(1) l by (simp add: scaled_close_series_def)
  next
    fix i
    assume "i < length (map2 (\<lambda>r s. (fst r, nan_add (snd r) (snd s))) (zip labels (map Some p))
        (scaled_close_series data c))"
    then have i: "i < length data" using assms(1) l by (simp add: scaled_close_series_def)
    then show "map2 (\<lambda>r s. (fst r, nan_add (snd r) (snd s))) (zip labels (map Some p))
        (scaled_close_series data c) ! i =
      zip labels (map Some (map (\<lambda>k. p ! k + close (data ! k) * c) [0..<length labels])) ! i"
      using assms(1) l by (simp add: scaled_close_series_def nan_add_def)
  qed
  finally show ?thesis .
qed

lemma price_loop:
  assumes data: "\<forall>s \<in> set ss. symbol_klines w self s = Inr (data s) \<and>
        map row_label (data s) = labels"
    and row: "np_index (evec (self_test_result self)) e = Inr row"
    and len: "counter + length ss \<le> length row"
    and idx: "frame_index coint = labels"
    and p: "map_of (frame_columns coint) Price = Some (map Some p)" "length p = length labels"
  shows "\<exists>coint'. for_each (price_step w self e) ss (coint, counter) =
           (Inr (), (coint', counter + length ss)) \<and>
         frame_index coint' = labels \<and>
         map_of (frame_columns coint') Time = map_of (frame_columns coint) Time \<and>
         map_of (frame_columns coint') Price =
           Some (map Some (map (\<lambda>k. p ! k +
                   (\<Sum>j<length ss. close (data (ss ! j) ! k) * row ! (counter + j)))
                  [0..<length labels]))"
  using data len idx p
proof (induction ss arbitrary: coint counter p)
  case Nil
  have "map ((!) p) [0..<length labels] = p" unfolding Nil(5) [symmetric] by (rule map_nth)
  with Nil show ?case by simp
next
  case (Cons s ss)
  from Cons.prems have ds: "symbol_klines w self s = Inr (data s)"
    and ls: "map row_label (data s) = labels"
    by simp_all
  from ls have ld: "length (data s) = length labels" by auto
  from Cons.prems have "counter < length row" by simp
  with row have c: "evec_component self e (int counter) = Inr (row ! counter)"
    by (rule evec_component_nat)
  define p1 where "p1 = map (\<lambda>k. p ! k + close (data s ! k) * row ! counter) [0..<length labels]"
  have l1: "length p1 = length labels" by (simp add: p1_def)
  have pres: "Price \<in> fst ` set (frame_columns coint)"
    using Cons.prems(4) by (rule map_of_present)
  have col: "column_of coint Price = Inr (zip labels (map Some p))"
    using Cons.prems(3,4) by (simp add: column_of_def)
  have add: "series_add (zip labels (map Some p)) (scaled_close_series (data s) (row ! counter)) =
      zip labels (map Some p1)"
    unfolding p1_def using Cons.prems(5) ld ls by (intro series_add_same_labels) simp_all
  have "map fst (zip labels (map Some p1)) = frame_index coint"
    using l1 Cons.prems(3) by simp
  from setitem_same_labels [OF this, of Price]
  have set: "setitem coint Price (zip labels (map Some p1)) =
      Inr (coint\<lparr>frame_columns := dict_set (frame_columns coint) Price (map Some p1)\<rparr>)"
    using l1 by simp
  define coint1 where
    "coint1 = coint\<lparr>frame_columns := dict_set (frame_columns coint) Price (map Some p1)\<rparr>"
  have step: "price_step w self e s (coint, counter) = (Inr (), (coint1, counter + 1))"
    using ds pres col c add set by (simp add: price_step_def coint1_def)
  have i1: "frame_index coint1 = labels" using Cons.prems(3) by (simp add: coint1_def)
  have c1: "map_of (frame_columns coint1) Price = Some (map Some p1)"
    by (simp add: coint1_def map_of_dict_set)
  have t1: "map_of (frame_columns coint1) Time = map_of (frame_columns coint) Time"
    by (simp add: coint1_def map_of_dict_set)
  from Cons.prems have d': "\<forall>s \<in> set ss. symbol_klines w self s = Inr (data s) \<and>
        map row_label (data s) = labels"
    and len': "counter + 1 + length ss \<le> length row" by simp_all
  from Cons.IH [OF d' len' i1 c1 l1]
  obtain coint' where r: "for_each (price_step w self e) ss (coint1, counter + 1) =
           (Inr (), (coint', counter + 1 + length ss))"
    and i: "frame_index coint' = labels"
    and t: "map_of (frame_columns coint') Time = map_of (frame_columns coint1) Time"
    and q: "map_of (frame_columns coint') Price =
           Some (map Some (map (\<lambda>k. p1 ! k +
                   (\<Sum>j<length ss. close (data (ss ! j) ! k) * row ! (counter + 1 + j)))
                  [0..<length labels]))"
    by blast
  have "map (\<lambda>k. p1 ! k + (\<Sum>j<length ss. close (data (ss ! j) ! k) * row ! (counter + 1 + j)))
          [0..<length labels]
      = map (\<lambda>k. p ! k + (\<Sum>j<length (s # ss). close (data ((s # ss) ! j) ! k) * row ! (counter + j)))
          [0..<length labels]"
    by (rule map_cong [OF refl]) (simp add: p1_def sum.lessThan_Suc_shift del: sum.lessThan_Suc)
  with r i t q step t1 show ?case
    by simp
qed

lemma underlying_loop:
  assumes "\<forall>s \<in> set ss. symbol_klines w self s = Inr (data s) \<and> map row_label (data s) = labels"
  shows "\<exists>more c. for_each (underlying_trace w self) ss (fig, counter) = (Inr (), (fig @ more, c))"
  using assms
proof (induction ss arbitrary: fig counter)
  case Nil
  then show ?case by simp
next
  case (Cons s ss)
  then have ds: "symbol_klines w self s = Inr (data s)" by simp
  let ?t = "\<lparr>trace_name = Underlying s,
             trace_x = map (\<lambda>r. Some (real_of_int (close_time r))) (data s),
             trace_y = map (\<lambda>r. Some (close r)) (data s), trace_row = counter\<rparr>"
  from Cons.IH [of "fig @ [?t]" "counter + 1"] Cons.prems
  obtain more c where "for_each (underlying_trace w self) ss (fig @ [?t], counter + 1) =
      (Inr (), ((fig @ [?t]) @ more, c))" by auto
  moreover have "underlying_trace w self s (fig, counter) = (Inr (), (fig @ [?t], counter + 1))"
    using ds by (simp add: underlying_trace_def)
  ultimately show ?case
    by (intro exI [of _ "?t # more"] exI [of _ c]) simp
qed

text \<open>
  Claim C7, as the code has it. With \<open>include_all_evecs=False\<close>, when the kline data of
  every symbol loads with the same row labels in the same order and \<open>evec[evec]\<close> has a
  component for every symbol, \<open>get_coint_plot\<close> returns a figure whose first trace is the
  spread: over the close times of the first symbol, the value at each row is the sum over
  the symbols of the symbol's closing price in that row times the component of
  \<open>evec[evec]\<close> at the symbol's position. It is the only trace unless the underlying series
  are asked for.
\<close>

theorem coint_plot_price_is_spread:
  assumes data: "\<forall>s \<in> set (self_symbols self).
        symbol_klines w self s = Inr (data s) \<and> map row_label (data s) = labels"
    and row: "np_index (evec (self_test_result self)) evec' = Inr row"
    and len: "length (self_symbols self) \<le> length row"
    and ne: "self_symbols self \<noteq> []"
  shows "\<exists>more. get_coint_plot w self False include_underlying evec' =
     Inr (\<lparr>trace_name = Cointegrating,
           trace_x = map (\<lambda>r. Some (real_of_int (close_time r))) (data (hd (self_symbols self))),
           trace_y = map Some (spread_series (map (\<lambda>s. map close (data s)) (self_symbols self))
                                 row (length labels)),
           trace_row = 1\<rparr> # more)
     \<and> (\<not> include_underlying \<longrightarrow> more = [])"
proof -
  from ne obtain s0 ss where sy: "self_symbols self = s0 # ss" by (cases "self_symbols self") auto
  from data sy have d0: "symbol_klines w self s0 = Inr (data s0)"
    and l0: "map row_label (data s0) = labels"
    and dss: "\<forall>s \<in> set ss. symbol_klines w self s = Inr (data s) \<and>
        map row_label (data s) = labels"
    by simp_all
  from l0 have n0: "length (data s0) = length labels" by auto
  from len sy have "0 < length row" by (cases row) auto
  with row have c0: "evec_component self evec' (int 0) = Inr (row ! 0)"
    by (rule evec_component_nat)
  define tt where "tt = map (\<lambda>r. Some (real_of_int (close_time r))) (data s0)"
  define p0 where "p0 = map (\<lambda>r. close r * row ! 0) (data s0)"
  define coint0 where
    "coint0 = \<lparr>frame_index = labels, frame_columns = [(Time, tt), (Price, map Some p0)]\<rparr>"
  have s1: "setitem \<lparr>frame_index = [], frame_columns = []\<rparr> Time (close_time_series (data s0)) =
      Inr \<lparr>frame_index = labels, frame_columns = [(Time, tt)]\<rparr>"
    unfolding setitem_empty_frame using l0 by (simp add: close_time_series_def tt_def comp_def)
  have "map fst (scaled_close_series (data s0) (row ! 0)) =
      frame_index \<lparr>frame_index = labels, frame_columns = [(Time, tt)]\<rparr>"
    using l0 by (simp add: scaled_close_series_def comp_def)
  from setitem_same_labels [OF this, of Price]
  have s2: "setitem \<lparr>frame_index = labels, frame_columns = [(Time, tt)]\<rparr> Price
      (scaled_close_series (data s0) (row ! 0)) = Inr coint0"
    by (simp add: coint0_def scaled_close_series_def p0_def comp_def)
  have step0: "price_step w self evec' s0 (\<lparr>frame_index = [], frame_columns = []\<rparr>, 0) =
      (Inr (), (coint0, 1))"
    using d0 c0 s1 s2 by (simp add: price_step_def)
  have ci: "frame_index coint0 = labels"
    and cp: "map_of (frame_columns coint0) Price = Some (map Some p0)"
    and ct: "map_of (frame_columns coint0) Time = Some tt"
    by (simp_all add: coint0_def)
  have lp: "length p0 = length labels" by (simp add: p0_def n0)
  have lt: "length tt = length labels" by (simp add: tt_def n0)
  from len sy have len1: "1 + length ss \<le> length row" by simp
  from price_loop [OF dss row len1 ci cp lp]
  obtain coint' where r: "for_each (price_step w self evec') ss (coint0, 1) =
           (Inr (), (coint', 1 + length ss))"
    and i: "frame_index coint' = labels"
    and t: "map_of (frame_columns coint') Time = Some tt"
    and q: "map_of (frame_columns coint') Price =
           Some (map Some (map (\<lambda>k. p0 ! k +
                   (\<Sum>j<length ss. close (data (ss ! j) ! k) * row ! (1 + j)))
                  [0..<length labels]))"
    using ct by auto
  have sp: "map (\<lambda>k. p0 ! k + (\<Sum>j<length ss. close (data (ss ! j) ! k) * row ! (1 + j)))
        [0..<length labels] =
      spread_series (map (\<lambda>s. map close (data s)) (self_symbols self)) row (length labels)"
    unfolding spread_series_def
  proof (rule map_cong [OF refl])
    fix k assume "k \<in> set [0..<length labels]"
    then have k: "k < length labels" by simp
    have "(\<Sum>j<length (s0 # ss). map (\<lambda>s. map close (data s)) (s0 # ss) ! j ! k * row ! j) =
        (\<Sum>j<length (s0 # ss). close (data ((s0 # ss) ! j) ! k) * row ! j)"
    proof (rule sum.cong [OF refl])
      fix j assume "j \<in> {..<length (s0 # ss)}"
      then have j: "j < length (s0 # ss)" by simp
      then have "(s0 # ss) ! j \<in> set (self_symbols self)" unfolding sy by (rule nth_mem)
      with data have "map row_label (data ((s0 # ss) ! j)) = labels" by simp
      then have "length (data ((s0 # ss) ! j)) = length labels" by auto
      with k have "k < length (data ((s0 # ss) ! j))" by simp
      with j show "map (\<lambda>s. map close (data s)) (s0 # ss) ! j ! k * row ! j =
          close (data ((s0 # ss) ! j) ! k) * row ! j"
        by (simp only: nth_map)
    qed
    also have "\<dots> = p0 ! k + (\<Sum>j<length ss. close (data (ss ! j) ! k) * row ! (1 + j))"
      using k n0 by (simp add: sum.lessThan_Suc_shift p0_def del: sum.lessThan_Suc)
    finally show "p0 ! k + (\<Sum>j<length ss. close (data (ss ! j) ! k) * row ! (1 + j)) =
        (\<Sum>j<length (map (\<lambda>s. map close (data s)) (self_symbols self)).
            map (\<lambda>s. map close (data s)) (self_symbols self) ! j ! k * row ! j)"
      by (simp add: sy)
  qed
  let ?T = "\<lparr>trace_name = Cointegrating, trace_x = tt,
           trace_y = map Some (spread_series (map (\<lambda>s. map close (data s)) (self_symbols self))
                                 row (length labels)),
           trace_row = 1\<rparr>"
  have loop: "for_each (price_step w self evec') (self_symbols self)
      (\<lparr>frame_index = [], frame_columns = []\<rparr>, 0) = (Inr (), (coint', 1 + length ss))"
    using r by (simp add: sy step0)
  from q have q': "map_of (frame_columns coint') Price =
      Some (map Some (spread_series (map (\<lambda>s. map close (data s)) (self_symbols self))
                        row (length labels)))"
    unfolding sp .
  have ls: "length (spread_series (map (\<lambda>s. map close (data s)) (self_symbols self))
                        row (length labels)) = length labels"
    by (simp add: spread_series_def)
  have tr: "spread_traces self False coint' = Inr [?T]"
    using lt ls by (simp add: spread_traces_def column_of_def t q' i)
  from underlying_loop [OF data, of "[?T]" 2]
  obtain more c where u: "for_each (underlying_trace w self) (self_symbols self) ([?T], 2) =
      (Inr (), ([?T] @ more, c))" by blast
  have hd: "data (hd (self_symbols self)) = data s0" by (simp add: sy)
  show ?thesis
  proof (cases include_underlying)
    case False
    then have "get_coint_plot w self False include_underlying evec' = Inr (?T # [])"
      by (simp add: get_coint_plot_def coint_plot_def loop tr)
    with False show ?thesis unfolding hd tt_def by blast
  next
    case True
    with u have "get_coint_plot w self False include_underlying evec' = Inr (?T # more)"
      by (simp add: get_coint_plot_def coint_plot_def loop tr)
    with True show ?thesis unfolding hd tt_def by blast
  qed
qed

lemma market_world_day:
  "kline_csv market_world
     ''/app/test_data/binance/data/spot/daily/klines/BTCUSDT/1m/BTCUSDT-1m-2021-11-02.zip'' =
   Inr [example_kline 300 30, example_kline 400 40]"
  "kline_csv market_world
     ''/app/test_data/binance/data/spot/daily/klines/ETHUSDT/1m/ETHUSDT-1m-2021-11-02.zip'' =
   Inr [example_kline 300 3, example_kline 400 4]"
  by (simp_all add: market_world_def)

lemma shuffled_world_day:
  "kline_csv shuffled_world
     ''/app/test_data/binance/data/spot/daily/klines/BTCUSDT/1m/BTCUSDT-1m-2021-11-02.zip'' =
   Inr [example_kline 300 30, example_kline 400 40]"
  "kline_csv shuffled_world
     ''/app/test_data/binance/data/spot/daily/klines/ETHUSDT/1m/ETHUSDT-1m-2021-11-02.zip'' =
   Inr [example_kline 400 4, example_kline 300 3]"
  by (simp_all add: shuffled_world_def market_world_def)

lemma shuffled_world_cwd: "cwd shuffled_world = ''/app''"
  by (simp add: shuffled_world_def market_world_cwd)

lemma pd_date_range_day: "pd_date_range (2021, 11, 2) (2021, 11, 2) = Inr [(2021, 11, 2)]"
  by (simp add: pd_date_range_def in_timestamp_bounds_def day_number_def
        days_before_month_def days_in_month_def is_leap_def next_day_def days_from_unfold)

lemma example_klines:
  "symbol_klines market_world example_result ''BTCUSDT'' = Inr (example_data ''BTCUSDT'')"
  "symbol_klines market_world example_result ''ETHUSDT'' = Inr (example_data ''ETHUSDT'')"
  by (simp_all add: symbol_klines_def example_result_def get_binance_kline_data_def
        downloaded_filepaths_def strptime_examples pd_date_range_day symbol_step_def
        interval_date_step_def strftime_examples file_format_def market_world_cwd
        market_world_day example_data_def example_kline_def kline_row.extend_def Let_def
        enumerate_eq_zip upt_rec)

lemma shuffled_klines:
  "symbol_klines shuffled_world example_result ''BTCUSDT'' =
     Inr [kline_row.extend (example_kline 300 30)
            \<lparr>kline_symbol = ''BTCUSDT'', kline_interval = Some ''1m'', row_label = 0\<rparr>,
          kline_row.extend (example_kline 400 40)
            \<lparr>kline_symbol = ''BTCUSDT'', kline_interval = Some ''1m'', row_label = 1\<rparr>]"
  "symbol_klines shuffled_world example_result ''ETHUSDT'' =
     Inr [kline_row.extend (example_kline 300 3)
            \<lparr>kline_symbol = ''ETHUSDT'', kline_interval = Some ''1m'', row_label = 1\<rparr>,
          kline_row.extend (example_kline 400 4)
            \<lparr>kline_symbol = ''ETHUSDT'', kline_interval = Some ''1m'', row_label = 0\<rparr>]"
  by (simp_all add: symbol_klines_def example_result_def get_binance_kline_data_def
        downloaded_filepaths_def strptime_examples pd_date_range_day symbol_step_def
        interval_date_step_def strftime_examples file_format_def shuffled_world_cwd
        shuffled_world_day example_kline_def kline_row.extend_def Let_def
        enumerate_eq_zip upt_rec)

lemma example_data_columns:
  "map close (example_data ''BTCUSDT'') = [30, 40]"
  "map close (example_data ''ETHUSDT'') = [3, 4]"
  "map row_label (example_data ''BTCUSDT'') = [0, 1]"
  "map row_label (example_data ''ETHUSDT'') = [0, 1]"
  "map (\<lambda>r. Some (real_of_int (close_time r))) (example_data ''BTCUSDT'') = [Some 300, Some 400]"
  "close_time_series (example_data ''BTCUSDT'') = [(0, Some 300), (1, Some 400)]"
  "scaled_close_series (example_data ''BTCUSDT'') c = [(0, Some (30 * c)), (1, Some (40 * c))]"
  "scaled_close_series (example_data ''ETHUSDT'') c = [(0, Some (3 * c)), (1, Some (4 * c))]"
  by (simp_all add: example_data_def example_kline_def kline_row.extend_def
        close_time_series_def scaled_close_series_def)

lemma spread_examples:
  "spread_series [[30, 40], [3, 4]] [1, 2] 2 = [36, 48]"
  "spread_series [[30, 40], [3, 4]] [3, 4] 2 = [102, 136]"
  by (simp_all add: spread_series_def eval_nat_numeral lessThan_Suc upt_rec)

lemma example_fields:
  "self_symbols example_result = [''BTCUSDT'', ''ETHUSDT'']"
  "evec (self_test_result example_result) = [[1, 2], [3, 4]]"
  by (simp_all add: example_result_def)

theorem coint_plot_price_is_spread_witness:
  "get_coint_plot market_world example_result False False 0 =
     Inr [\<lparr>trace_name = Cointegrating, trace_x = [Some 300, Some 400],
            trace_y = map Some (spread_series [[30, 40], [3, 4]] [1, 2] 2), trace_row = 1\<rparr>]
   \<and> spread_series [[30, 40], [3, 4]] [1, 2] 2 = [36, 48]"
proof -
  have d: "\<forall>s \<in> set (self_symbols example_result).
      symbol_klines market_world example_result s = Inr (example_data s) \<and>
      map row_label (example_data s) = [0, 1]"
    by (simp add: example_fields example_klines example_data_columns)
  have r: "np_index (evec (self_test_result example_result)) 0 = Inr [1, 2]"
    by (simp add: np_index_def example_fields)
  have l: "length (self_symbols example_result) \<le> length [1, 2 :: real]"
    by (simp add: example_fields)
  have n: "self_symbols example_result \<noteq> []"
    by (simp add: example_fields)
  from coint_plot_price_is_spread [OF d r l n, of False]
  have "get_coint_plot market_world example_result False False 0 =
     Inr [\<lparr>trace_name = Cointegrating,
            trace_x = map (\<lambda>r. Some (real_of_int (close_time r)))
                        (example_data (hd (self_symbols example_result))),
            trace_y = map Some (spread_series (map (\<lambda>s. map close (example_data s))
                        (self_symbols example_result)) [1, 2] (length [0, 1 :: nat])),
            trace_row = 1\<rparr>]"
    by auto
  then have "get_coint_plot market_world example_result False False 0 =
     Inr [\<lparr>trace_name = Cointegrating, trace_x = [Some 300, Some 400],
            trace_y = map Some (spread_series [[30, 40], [3, 4]] [1, 2] 2), trace_row = 1\<rparr>]"
    by (simp add: example_fields example_data_columns numeral_2_eq_2)
  with spread_examples(1) show ?thesis by blast
qed

text \<open>
  Claim C7 as the specification words it fails where the tables of two symbols carry their
  row labels in different orders. In \<open>shuffled_world\<close> both symbols have the close times
  300 and 400, with the closing prices 30 and 40, and 3 and 4; the spread for the
  eigenvector \<open>[1, 2]\<close> is 36 and 48, and the plotted series is 38 and 46: the rows are
  added by row label, a price of the one symbol to the price the other has at the other
  time.
\<close>

theorem coint_plot_price_by_label_counterexample:
  "get_coint_plot shuffled_world example_result False False 0 =
     Inr [\<lparr>trace_name = Cointegrating, trace_x = [Some 300, Some 400],
            trace_y = [Some 38, Some 46], trace_row = 1\<rparr>]
   \<and> map_sum id (map (\<lambda>r. (close_time r, close r)))
       (symbol_klines shuffled_world example_result ''BTCUSDT'') = Inr [(300, 30), (400, 40)]
   \<and> map_sum id (map (\<lambda>r. (close_time r, close r)))
       (symbol_klines shuffled_world example_result ''ETHUSDT'') = Inr [(300, 3), (400, 4)]
   \<and> self_symbols example_result = [''BTCUSDT'', ''ETHUSDT'']
   \<and> np_index (evec (self_test_result example_result)) 0 = Inr [1, 2]
   \<and> spread_series [[30, 40], [3, 4]] [1, 2] 2 = [36, 48]"
proof -
  have a: "get_coint_plot shuffled_world example_result False False 0 =
     Inr [\<lparr>trace_name = Cointegrating, trace_x = [Some 300, Some 400],
            trace_y = [Some 38, Some 46], trace_row = 1\<rparr>]"
    by (simp add: get_coint_plot_def coint_plot_def price_step_def spread_traces_def
          column_of_def evec_component_def np_index_def example_fields shuffled_klines
          setitem_def series_add_def nan_add_def close_time_series_def
          scaled_close_series_def example_kline_def kline_row.extend_def Let_def)
  have b: "map_sum id (map (\<lambda>r. (close_time r, close r)))
       (symbol_klines shuffled_world example_result ''BTCUSDT'') = Inr [(300, 30), (400, 40)]"
    "map_sum id (map (\<lambda>r. (close_time r, close r)))
       (symbol_klines shuffled_world example_result ''ETHUSDT'') = Inr [(300, 3), (400, 4)]"
    by (simp_all add: shuffled_klines example_kline_def kline_row.extend_def)
  have c: "np_index (evec (self_test_result example_result)) 0 = Inr [1, 2]"
    by (simp add: np_index_def example_fields)
  from a b c example_fields(1) spread_examples(1) show ?thesis by blast
qed

text \<open>
  Claim C8 at a concrete input. With \<open>include_all_evecs=True\<close> and two symbols,
  \<open>get_coint_plot\<close> of \<open>src/coint.py\<close> leaves in each column \<open>price_i\<close> the term of the last
  symbol alone, where the one of \<open>researchtools/__init__.py\<close> has the accumulated sum the
  specification describes.
\<close>

theorem all_evecs_columns_src_and_packaged:
  "get_coint_plot market_world example_result True False 0 =
     Inr [\<lparr>trace_name = Cointegrating_n 0, trace_x = [Some 300, Some 400],
            trace_y = [Some 6, Some 8], trace_row = 1\<rparr>,
          \<lparr>trace_name = Cointegrating_n 1, trace_x = [Some 300, Some 400],
            trace_y = [Some 12, Some 16], trace_row = 2\<rparr>]
   \<and> get_coint_plot_packaged market_world example_result True False 0 =
     Inr [\<lparr>trace_name = Cointegrating_n 0, trace_x = [Some 300, Some 400],
            trace_y = [Some 36, Some 48], trace_row = 1\<rparr>,
          \<lparr>trace_name = Cointegrating_n 1, trace_x = [Some 300, Some 400],
            trace_y = [Some 102, Some 136], trace_row = 2\<rparr>]
   \<and> spread_series [[30, 40], [3, 4]] [1, 2] 2 = [36, 48]
   \<and> spread_series [[30, 40], [3, 4]] [3, 4] 2 = [102, 136]"
proof -
  have u: "[0..<2] = [0, 1]" by (simp add: eval_nat_numeral upt_rec)
  have a: "get_coint_plot market_world example_result True False 0 =
     Inr [\<lparr>trace_name = Cointegrating_n 0, trace_x = [Some 300, Some 400],
            trace_y = [Some 6, Some 8], trace_row = 1\<rparr>,
          \<lparr>trace_name = Cointegrating_n 1, trace_x = [Some 300, Some 400],
            trace_y = [Some 12, Some 16], trace_row = 2\<rparr>]"
    by (simp add: get_coint_plot_def coint_plot_def all_evecs_step_def set_price_n_def
          spread_traces_def evec_trace_def column_of_def evec_component_def np_index_def
          example_fields example_klines example_data_columns setitem_def u Let_def)
  have b: "get_coint_plot_packaged market_world example_result True False 0 =
     Inr [\<lparr>trace_name = Cointegrating_n 0, trace_x = [Some 300, Some 400],
            trace_y = [Some 36, Some 48], trace_row = 1\<rparr>,
          \<lparr>trace_name = Cointegrating_n 1, trace_x = [Some 300, Some 400],
            trace_y = [Some 102, Some 136], trace_row = 2\<rparr>]"
    by (simp add: get_coint_plot_packaged_def coint_plot_def all_evecs_step_def set_price_n_def
          add_price_n_def spread_traces_def evec_trace_def column_of_def evec_component_def
          np_index_def example_fields example_klines example_data_columns setitem_def
          series_add_def nan_add_def u Let_def)
  from a b spread_examples show ?thesis by blast
qed

end
